theory Spec2Isabelle
  imports Complex_Main
begin

section \<open>Data model\<close>

text \<open>
  The game computes with JavaScript numbers. They are modelled by the real numbers: every
  statement below is about the geometry the code computes, read over \<open>real\<close>, without
  rounding, infinities or NaN. Grid coordinates, hit counters and identifiers only ever
  hold integers and are modelled by \<open>int\<close> and \<open>nat\<close>.
\<close>

record Vector2 =
  x :: real
  y :: real

record Ball =
  ball_id :: nat
  position :: Vector2
  velocity :: Vector2
  active :: bool

text \<open>The private fields of class \<open>Physics\<close>, set by \<open>updateDimensions\<close>.\<close>

record Physics =
  gameWidth :: real
  gameHeight :: real
  ballRadius :: real
  launchZoneTop :: real

datatype WallSide = SideLeft | SideRight | SideTop

record WallResult =
  wall_collided :: bool
  side :: "WallSide option"

section \<open>Vector utilities\<close>

definition magnitude :: "Vector2 \<Rightarrow> real" where
  "magnitude v = sqrt (x v * x v + y v * y v)"

definition normalizeVector :: "Vector2 \<Rightarrow> Vector2" where
  "normalizeVector v =
     (let mag = magnitude v in
      if mag = 0 then \<lparr>x = 0, y = 0\<rparr> else \<lparr>x = x v / mag, y = y v / mag\<rparr>)"

definition dotProduct :: "Vector2 \<Rightarrow> Vector2 \<Rightarrow> real" where
  "dotProduct a b = x a * x b + y a * y b"

definition reflectVector :: "Vector2 \<Rightarrow> Vector2 \<Rightarrow> Vector2" where
  "reflectVector v n =
     (let d = dotProduct v n in
      \<lparr>x = x v - 2 * d * x n, y = y v - 2 * d * y n\<rparr>)"

section \<open>Physics: integration and wall collisions\<close>

text \<open>\<open>Physics.updateBall\<close>: the ball is mutated in place; the model returns it.\<close>

definition updateBall :: "Ball \<Rightarrow> real \<Rightarrow> real \<Rightarrow> Ball" where
  "updateBall ball deltaTime speedMultiplier =
     (if \<not> active ball then ball
      else
        let dt = deltaTime * speedMultiplier in
        ball\<lparr>position :=
          \<lparr>x = x (position ball) + x (velocity ball) * dt,
           y = y (position ball) + y (velocity ball) * dt\<rparr>\<rparr>)"

text \<open>
  \<open>Physics.checkWallCollision\<close>: the three tests run in the order left, right, top, and the
  first one that holds returns.
\<close>

definition checkWallCollision :: "Physics \<Rightarrow> Ball \<Rightarrow> Ball \<times> WallResult" where
  "checkWallCollision ph ball =
     (let r = ballRadius ph in
      if x (position ball) - r \<le> 0 then
        (ball\<lparr>position := (position ball)\<lparr>x := r\<rparr>,
              velocity := (velocity ball)\<lparr>x := \<bar>x (velocity ball)\<bar>\<rparr>\<rparr>,
         \<lparr>wall_collided = True, side = Some SideLeft\<rparr>)
      else if x (position ball) + r \<ge> gameWidth ph then
        (ball\<lparr>position := (position ball)\<lparr>x := gameWidth ph - r\<rparr>,
              velocity := (velocity ball)\<lparr>x := - \<bar>x (velocity ball)\<bar>\<rparr>\<rparr>,
         \<lparr>wall_collided = True, side = Some SideRight\<rparr>)
      else if y (position ball) - r \<le> 0 then
        (ball\<lparr>position := (position ball)\<lparr>y := r\<rparr>,
              velocity := (velocity ball)\<lparr>y := \<bar>y (velocity ball)\<bar>\<rparr>\<rparr>,
         \<lparr>wall_collided = True, side = Some SideTop\<rparr>)
      else (ball, \<lparr>wall_collided = False, side = None\<rparr>))"

section \<open>Physics: brick collisions\<close>

record BrickBounds =
  left :: real
  right :: real
  top' :: real
  bottom :: real

datatype Face = FaceTop | FaceBottom | FaceLeft | FaceRight | FaceCorner

record BrickResult =
  collided :: bool
  face :: "Face option"

record Brick =
  brick_id :: nat
  gridX :: int
  gridY :: int
  hits :: int
  destroying :: bool
  destroyProgress :: real

text \<open>
  \<open>Math.atan2(b, a)\<close> over the reals: the angle of the point \<open>(a, b)\<close> in the interval
  from \<open>-pi\<close> to \<open>pi\<close>, and 0 at the origin.
\<close>

definition atan2 :: "real \<Rightarrow> real \<Rightarrow> real" where
  "atan2 b a =
     (if a > 0 then arctan (b / a)
      else if a < 0 \<and> b \<ge> 0 then arctan (b / a) + pi
      else if a < 0 then arctan (b / a) - pi
      else if b > 0 then pi / 2
      else if b < 0 then - (pi / 2)
      else 0)"

text \<open>
  \<open>Physics.checkBrickCollision\<close>. The ball is mutated in place by the source; the model
  returns the ball together with the reported result.
\<close>

definition checkBrickCollision :: "Physics \<Rightarrow> Ball \<Rightarrow> BrickBounds \<Rightarrow> Ball \<times> BrickResult" where
  "checkBrickCollision ph ball brickBounds =
     (let r = ballRadius ph;
          b_x = x (position ball);
          b_y = y (position ball);
          expandedLeft = left brickBounds - r;
          expandedRight = right brickBounds + r;
          expandedTop = top' brickBounds - r;
          expandedBottom = bottom brickBounds + r
      in
      if b_x < expandedLeft \<or> b_x > expandedRight \<or> b_y < expandedTop \<or> b_y > expandedBottom
      then (ball, \<lparr>collided = False, face = None\<rparr>)
      else
        let overlapLeft = b_x - expandedLeft;
            overlapRight = expandedRight - b_x;
            overlapTop = b_y - expandedTop;
            overlapBottom = expandedBottom - b_y;
            minOverlapX = min overlapLeft overlapRight;
            minOverlapY = min overlapTop overlapBottom;
            inCornerX = (b_x < left brickBounds \<or> b_x > right brickBounds);
            inCornerY = (b_y < top' brickBounds \<or> b_y > bottom brickBounds)
        in
        if inCornerX \<and> inCornerY then
          let cornerX = (if b_x < left brickBounds then left brickBounds else right brickBounds);
              cornerY = (if b_y < top' brickBounds then top' brickBounds else bottom brickBounds);
              distToCorner = sqrt ((b_x - cornerX)\<^sup>2 + (b_y - cornerY)\<^sup>2)
          in
          if distToCorner \<le> r then
            let pushAngle = atan2 (b_y - cornerY) (b_x - cornerX) in
            (ball\<lparr>velocity := \<lparr>x = x (velocity ball) * (- 1), y = y (velocity ball) * (- 1)\<rparr>,
                  position := \<lparr>x = cornerX + cos pushAngle * (r + 1),
                                y = cornerY + sin pushAngle * (r + 1)\<rparr>\<rparr>,
             \<lparr>collided = True, face = Some FaceCorner\<rparr>)
          else (ball, \<lparr>collided = False, face = None\<rparr>)
        else if minOverlapX < minOverlapY then
          (if overlapLeft < overlapRight then
             (ball\<lparr>velocity := (velocity ball)\<lparr>x := - \<bar>x (velocity ball)\<bar>\<rparr>,
                   position := (position ball)\<lparr>x := expandedLeft - 1\<rparr>\<rparr>,
              \<lparr>collided = True, face = Some FaceLeft\<rparr>)
           else
             (ball\<lparr>velocity := (velocity ball)\<lparr>x := \<bar>x (velocity ball)\<bar>\<rparr>,
                   position := (position ball)\<lparr>x := expandedRight + 1\<rparr>\<rparr>,
              \<lparr>collided = True, face = Some FaceRight\<rparr>))
        else
          (if overlapTop < overlapBottom then
             (ball\<lparr>velocity := (velocity ball)\<lparr>y := - \<bar>y (velocity ball)\<bar>\<rparr>,
                   position := (position ball)\<lparr>y := expandedTop - 1\<rparr>\<rparr>,
              \<lparr>collided = True, face = Some FaceTop\<rparr>)
           else
             (ball\<lparr>velocity := (velocity ball)\<lparr>y := \<bar>y (velocity ball)\<bar>\<rparr>,
                   position := (position ball)\<lparr>y := expandedBottom + 1\<rparr>\<rparr>,
              \<lparr>collided = True, face = Some FaceBottom\<rparr>)))"

definition getBrickBounds ::
  "Brick \<Rightarrow> real \<Rightarrow> real \<Rightarrow> real \<Rightarrow> real \<Rightarrow> real \<Rightarrow> BrickBounds" where
  "getBrickBounds brick cellWidth cellHeight gridOffsetX gridOffsetY gap =
     (let x0 = gridOffsetX + of_int (gridX brick) * cellWidth + gap / 2;
          y0 = gridOffsetY + of_int (gridY brick) * cellHeight + gap / 2;
          width = cellWidth - gap;
          height = cellHeight - gap
      in \<lparr>left = x0, right = x0 + width, top' = y0, bottom = y0 + height\<rparr>)"

section \<open>Game: the per-frame brick loop and brick bookkeeping\<close>

text \<open>
  The body of the loop over \<open>this.bricks\<close> in \<open>Game.updateAnimating\<close>, for one ball and
  one brick: a brick that is being destroyed is skipped; otherwise the ball is tested
  against the brick's bounds, and a reported collision takes one hit off the brick and
  starts its destruction when no hits are left.
\<close>

definition brickCollisionStep ::
  "Physics \<Rightarrow> real \<Rightarrow> real \<Rightarrow> real \<Rightarrow> real \<Rightarrow> real \<Rightarrow> Ball \<Rightarrow> Brick \<Rightarrow> Ball \<times> Brick" where
  "brickCollisionStep ph cellWidth cellHeight gridOffsetX gridOffsetY gap ball brick =
     (if destroying brick then (ball, brick)
      else
        let bounds = getBrickBounds brick cellWidth cellHeight gridOffsetX gridOffsetY gap;
            (ball1, collision) = checkBrickCollision ph ball bounds
        in
        if collided collision then
          let brick1 = brick\<lparr>hits := hits brick - 1\<rparr> in
          if hits brick1 \<le> 0
          then (ball1, brick1\<lparr>destroying := True, destroyProgress := 0\<rparr>)
          else (ball1, brick1)
        else (ball1, brick))"

fun brickCollisionLoop ::
  "Physics \<Rightarrow> real \<Rightarrow> real \<Rightarrow> real \<Rightarrow> real \<Rightarrow> real \<Rightarrow> Ball \<Rightarrow> Brick list \<Rightarrow> Ball \<times> Brick list" where
  "brickCollisionLoop ph cellWidth cellHeight gridOffsetX gridOffsetY gap ball [] = (ball, [])"
| "brickCollisionLoop ph cellWidth cellHeight gridOffsetX gridOffsetY gap ball (brick # rest) =
     (let (ball1, brick1) =
            brickCollisionStep ph cellWidth cellHeight gridOffsetX gridOffsetY gap ball brick;
          (ball2, rest1) =
            brickCollisionLoop ph cellWidth cellHeight gridOffsetX gridOffsetY gap ball1 rest
      in (ball2, brick1 # rest1))"

text \<open>\<open>Game.updateDestroyingBricks\<close>, with the animation duration in milliseconds.\<close>

definition DESTROY_ANIMATION_DURATION :: real where
  "DESTROY_ANIMATION_DURATION = 50"

definition updateDestroyingBricks :: "real \<Rightarrow> Brick list \<Rightarrow> Brick list" where
  "updateDestroyingBricks deltaTime bricks =
     map (\<lambda>brick.
            if destroying brick
            then brick\<lparr>destroyProgress :=
                   destroyProgress brick + deltaTime / (DESTROY_ANIMATION_DURATION / 1000)\<rparr>
            else brick) bricks"

text \<open>The removal of destroyed bricks in \<open>Game.endTurn\<close>.\<close>

definition removeDestroyedBricks :: "Brick list \<Rightarrow> Brick list" where
  "removeDestroyedBricks bricks =
     filter (\<lambda>b. \<not> destroying b \<or> destroyProgress b < 1) bricks"

section \<open>GridManager\<close>

definition GRID_ROWS :: int where
  "GRID_ROWS = 11"

definition BRICK_HIT_VARIANCE :: real where
  "BRICK_HIT_VARIANCE = 0.2"

record GridManager =
  nextBrickId :: nat
  nextPickupId :: nat

definition createBrick :: "GridManager \<Rightarrow> int \<Rightarrow> int \<Rightarrow> int \<Rightarrow> Brick \<times> GridManager" where
  "createBrick gm gx gy h =
     (\<lparr>brick_id = nextBrickId gm, gridX = gx, gridY = gy, hits = h,
       destroying = False, destroyProgress = 0\<rparr>,
      gm\<lparr>nextBrickId := nextBrickId gm + 1\<rparr>)"

text \<open>
  The hit count of one new brick in \<open>spawnNewRow\<close>; \<open>u\<close> is the value returned by
  \<open>Math.random()\<close>.
\<close>

definition brickHits :: "int \<Rightarrow> real \<Rightarrow> int" where
  "brickHits level u =
     (let baseHits = level;
          variance = \<lfloor>of_int baseHits * BRICK_HIT_VARIANCE\<rfloor>
      in max 1 (baseHits + \<lfloor>u * of_int (variance * 2 + 1)\<rfloor> - variance))"

text \<open>
  The loop of \<open>spawnNewRow\<close> that creates the bricks, one per chosen column, in row 0.
  The columns are the result of the shuffle; \<open>rnd k\<close> is the value of the \<open>k\<close>-th call
  of \<open>Math.random()\<close> made by the loop.
\<close>

fun createBricks ::
  "GridManager \<Rightarrow> int \<Rightarrow> (nat \<Rightarrow> real) \<Rightarrow> nat \<Rightarrow> int list \<Rightarrow> Brick list \<times> GridManager" where
  "createBricks gm level rnd k [] = ([], gm)"
| "createBricks gm level rnd k (col # brickColumns) =
     (let h = brickHits level (rnd k);
          (brick, gm1) = createBrick gm col 0 h;
          (newBricks, gm2) = createBricks gm1 level rnd (k + 1) brickColumns
      in (brick # newBricks, gm2))"

definition moveBricksDown :: "Brick list \<Rightarrow> Brick list" where
  "moveBricksDown bricks = map (\<lambda>brick. brick\<lparr>gridY := gridY brick + 1\<rparr>) bricks"

definition checkGameOver :: "Brick list \<Rightarrow> bool" where
  "checkGameOver bricks = list_ex (\<lambda>brick. gridY brick \<ge> GRID_ROWS) bricks"

datatype PickupType = PBall | X2 | X3 | X5 | X10

text \<open>
  \<open>PICKUP_WEIGHTS\<close> as the entries of the object, in the order of its keys. The constants
  file sets every multiplier weight to 0; the README documents the weights
  1.0, 0.2, 0.143, 0.1 and 0.05.
\<close>

definition PICKUP_WEIGHTS :: "(PickupType \<times> real) list" where
  "PICKUP_WEIGHTS = [(PBall, 1.0), (X2, 0), (X3, 0), (X5, 0), (X10, 0)]"

definition README_PICKUP_WEIGHTS :: "(PickupType \<times> real) list" where
  "README_PICKUP_WEIGHTS = [(PBall, 1.0), (X2, 0.2), (X3, 0.143), (X5, 0.1), (X10, 0.05)]"

text \<open>
  The loop of \<open>getRandomPickupType\<close> over the entries; the empty list is the fall-through
  to the default \<open>'ball'\<close>.
\<close>

fun pickupLoop :: "(PickupType \<times> real) list \<Rightarrow> real \<Rightarrow> PickupType" where
  "pickupLoop [] random = PBall"
| "pickupLoop ((t, weight) # entries) random =
     (let random1 = random - weight in
      if random1 \<le> 0 then t else pickupLoop entries random1)"

text \<open>
  \<open>GridManager.getRandomPickupType\<close>, with the weight table and the value \<open>u\<close> returned
  by \<open>Math.random()\<close> as arguments.
\<close>

definition getRandomPickupType :: "(PickupType \<times> real) list \<Rightarrow> real \<Rightarrow> PickupType" where
  "getRandomPickupType weights u =
     (let totalWeight = foldl (\<lambda>sum w. sum + w) 0 (map snd weights);
          random = u * totalWeight
      in pickupLoop weights random)"

section \<open>Game: the state machine of the overlays\<close>

datatype GameState = Menu | Aiming | Launching | Animating | Paused | GameOver | Settings

datatype InputEventType = AimStart | AimMove | AimEnd | Tap | MoveStart | MoveEnd

text \<open>A button rectangle as the renderer returns it: centre, width and height.\<close>

record ButtonBounds =
  btn_x :: real
  btn_y :: real
  width :: real
  height :: real

text \<open>The fields of the renderer that place the buttons.\<close>

record Renderer =
  r_width :: real
  r_height :: real
  scale :: real
  launchZoneHeight :: real

definition getSpeedButtonBounds :: "Renderer \<Rightarrow> ButtonBounds" where
  "getSpeedButtonBounds rd =
     (let buttonSize = 40 * scale rd in
      \<lparr>btn_x = r_width rd - buttonSize - 10 * scale rd,
       btn_y = r_height rd - launchZoneHeight rd / 2 - buttonSize / 2,
       width = buttonSize, height = buttonSize\<rparr>)"

record MenuButtons =
  menu_play :: ButtonBounds
  menu_settings :: ButtonBounds

definition getMenuButtonBounds :: "Renderer \<Rightarrow> MenuButtons" where
  "getMenuButtonBounds rd =
     (let centerX = r_width rd / 2; centerY = r_height rd / 2 in
      \<lparr>menu_play = \<lparr>btn_x = centerX, btn_y = centerY + 20 * scale rd,
                     width = 120 * scale rd, height = 44 * scale rd\<rparr>,
       menu_settings = \<lparr>btn_x = centerX, btn_y = centerY + 80 * scale rd,
                         width = 100 * scale rd, height = 36 * scale rd\<rparr>\<rparr>)"

record PauseButtons =
  pause_resume :: ButtonBounds
  pause_restart :: ButtonBounds
  pause_settings :: ButtonBounds

definition getPauseButtonBounds :: "Renderer \<Rightarrow> PauseButtons" where
  "getPauseButtonBounds rd =
     (let centerX = r_width rd / 2; centerY = r_height rd / 2;
          bw = 100 * scale rd; bh = 40 * scale rd in
      \<lparr>pause_resume = \<lparr>btn_x = centerX, btn_y = centerY - 20 * scale rd, width = bw, height = bh\<rparr>,
       pause_restart = \<lparr>btn_x = centerX, btn_y = centerY + 30 * scale rd, width = bw, height = bh\<rparr>,
       pause_settings = \<lparr>btn_x = centerX, btn_y = centerY + 80 * scale rd, width = bw, height = bh\<rparr>\<rparr>)"

record SettingsButtons =
  settings_toggle :: ButtonBounds
  settings_back :: ButtonBounds

definition getSettingsButtonBounds :: "Renderer \<Rightarrow> SettingsButtons" where
  "getSettingsButtonBounds rd =
     (let centerX = r_width rd / 2; centerY = r_height rd / 2 in
      \<lparr>settings_toggle = \<lparr>btn_x = centerX + 35 * scale rd, btn_y = centerY - 20 * scale rd,
                           width = 50 * scale rd, height = 26 * scale rd\<rparr>,
       settings_back = \<lparr>btn_x = centerX, btn_y = centerY + 80 * scale rd,
                         width = 100 * scale rd, height = 40 * scale rd\<rparr>\<rparr>)"

definition getGameOverButtonBounds :: "Renderer \<Rightarrow> ButtonBounds" where
  "getGameOverButtonBounds rd =
     (let centerX = r_width rd / 2; centerY = r_height rd / 2 in
      \<lparr>btn_x = centerX, btn_y = centerY + 50 * scale rd,
       width = 120 * scale rd, height = 44 * scale rd\<rparr>)"

definition isPointInBounds :: "Vector2 \<Rightarrow> ButtonBounds \<Rightarrow> bool" where
  "isPointInBounds pt bounds \<longleftrightarrow>
     x pt \<ge> btn_x bounds - width bounds / 2 \<and>
     x pt \<le> btn_x bounds + width bounds / 2 \<and>
     y pt \<ge> btn_y bounds - height bounds / 2 \<and>
     y pt \<le> btn_y bounds + height bounds / 2"

text \<open>
  The fields of \<open>Game\<close> that the overlay handlers read and write: the state, the
  remembered state, the speed multiplier and the easy-mode setting.
\<close>

record Game =
  state :: GameState
  previousState :: GameState
  speedMultiplier :: nat
  easyMode :: bool

text \<open>
  \<open>Game.startGame\<close> on these fields (it also resets the level, the balls, the bricks and
  the launch position, and spawns the first row).
\<close>

definition startGame :: "Game \<Rightarrow> Game" where
  "startGame g = g\<lparr>speedMultiplier := 1, state := Aiming\<rparr>"

definition cycleSpeed :: "Game \<Rightarrow> Game" where
  "cycleSpeed g =
     (if speedMultiplier g = 1 then g\<lparr>speedMultiplier := 2\<rparr>
      else if speedMultiplier g = 2 then g\<lparr>speedMultiplier := 4\<rparr>
      else if speedMultiplier g = 4 then g\<lparr>speedMultiplier := 1\<rparr>
      else g)"

definition handleMenuInput :: "Renderer \<Rightarrow> Game \<Rightarrow> InputEventType \<Rightarrow> Vector2 \<Rightarrow> Game" where
  "handleMenuInput rd g ty pos =
     (if ty \<noteq> Tap \<and> ty \<noteq> AimEnd then g
      else
        let bounds = getMenuButtonBounds rd in
        if isPointInBounds pos (menu_play bounds) then startGame g
        else if isPointInBounds pos (menu_settings bounds)
        then g\<lparr>previousState := Menu, state := Settings\<rparr>
        else g)"

text \<open>
  \<open>Game.handleAimingInput\<close> for an event of type \<open>tap\<close>: the branches for the aim events
  do not apply, and the tap at \<open>(-1, -1)\<close>, which the Escape key sends, pauses the game.
\<close>

definition handleAimingTap :: "Game \<Rightarrow> Vector2 \<Rightarrow> Game" where
  "handleAimingTap g pos =
     (if x pos = - 1 \<and> y pos = - 1
      then g\<lparr>previousState := Aiming, state := Paused\<rparr>
      else g)"

definition handleAnimatingInput :: "Renderer \<Rightarrow> Game \<Rightarrow> InputEventType \<Rightarrow> Vector2 \<Rightarrow> Game" where
  "handleAnimatingInput rd g ty pos =
     (if ty \<noteq> Tap then g
      else
        let speedBounds = getSpeedButtonBounds rd in
        if isPointInBounds pos speedBounds then cycleSpeed g
        else if x pos = - 1 \<and> y pos = - 1
        then g\<lparr>previousState := Animating, state := Paused\<rparr>
        else g)"

definition handlePausedInput :: "Renderer \<Rightarrow> Game \<Rightarrow> InputEventType \<Rightarrow> Vector2 \<Rightarrow> Game" where
  "handlePausedInput rd g ty pos =
     (if ty \<noteq> Tap \<and> ty \<noteq> AimEnd then g
      else
        let bounds = getPauseButtonBounds rd in
        if isPointInBounds pos (pause_resume bounds) then g\<lparr>state := previousState g\<rparr>
        else if isPointInBounds pos (pause_restart bounds) then startGame g
        else if isPointInBounds pos (pause_settings bounds)
        then g\<lparr>previousState := Paused, state := Settings\<rparr>
        else g)"

definition handleSettingsInput :: "Renderer \<Rightarrow> Game \<Rightarrow> InputEventType \<Rightarrow> Vector2 \<Rightarrow> Game" where
  "handleSettingsInput rd g ty pos =
     (if ty \<noteq> Tap \<and> ty \<noteq> AimEnd then g
      else
        let bounds = getSettingsButtonBounds rd in
        if isPointInBounds pos (settings_toggle bounds) then g\<lparr>easyMode := \<not> easyMode g\<rparr>
        else if isPointInBounds pos (settings_back bounds) then g\<lparr>state := previousState g\<rparr>
        else g)"

definition handleGameOverInput :: "Renderer \<Rightarrow> Game \<Rightarrow> InputEventType \<Rightarrow> Vector2 \<Rightarrow> Game" where
  "handleGameOverInput rd g ty pos =
     (if ty \<noteq> Tap \<and> ty \<noteq> AimEnd then g
      else if isPointInBounds pos (getGameOverButtonBounds rd) then startGame g
      else g)"

text \<open>
  \<open>Game.handleInput\<close> for an event of type \<open>tap\<close>. The \<open>launching\<close> state has no case
  in the switch, so the event is dropped there.
\<close>

definition handleTap :: "Renderer \<Rightarrow> Game \<Rightarrow> Vector2 \<Rightarrow> Game" where
  "handleTap rd g pos =
     (case state g of
        Menu \<Rightarrow> handleMenuInput rd g Tap pos
      | Aiming \<Rightarrow> handleAimingTap g pos
      | Animating \<Rightarrow> handleAnimatingInput rd g Tap pos
      | Paused \<Rightarrow> handlePausedInput rd g Tap pos
      | Settings \<Rightarrow> handleSettingsInput rd g Tap pos
      | GameOver \<Rightarrow> handleGameOverInput rd g Tap pos
      | Launching \<Rightarrow> g)"

text \<open>A sequence of taps, handled one after the other.\<close>

fun handleTaps :: "Renderer \<Rightarrow> Game \<Rightarrow> Vector2 list \<Rightarrow> Game" where
  "handleTaps rd g [] = g"
| "handleTaps rd g (pos # rest) = handleTaps rd (handleTap rd g pos) rest"

section \<open>Physics: ray casts for the trajectory preview\<close>

record Hit =
  point :: Vector2
  normal :: Vector2
  distance :: real

text \<open>
  \<open>Physics.raycastWall\<close>. The candidate hits are collected in the order left, right, top;
  \<open>reduce\<close> without an initial value starts from the first one and keeps the earlier hit on
  a tie.
\<close>

definition raycastWall :: "Physics \<Rightarrow> Vector2 \<Rightarrow> Vector2 \<Rightarrow> Hit option" where
  "raycastWall ph origin direction =
     (let r = ballRadius ph;
          leftHits =
            (if x direction < 0 then
               let t = (r - x origin) / x direction in
               if t > 0 then
                 let pt = \<lparr>x = r, y = y origin + y direction * t\<rparr> in
                 if y pt \<ge> r \<and> y pt \<le> launchZoneTop ph - r then
                   let dist = t * sqrt ((x direction)\<^sup>2 + (y direction)\<^sup>2) in
                   [\<lparr>point = pt, normal = \<lparr>x = 1, y = 0\<rparr>, distance = dist\<rparr>]
                 else []
               else []
             else []);
          rightHits =
            (if x direction > 0 then
               let t = (gameWidth ph - r - x origin) / x direction in
               if t > 0 then
                 let pt = \<lparr>x = gameWidth ph - r, y = y origin + y direction * t\<rparr> in
                 if y pt \<ge> r \<and> y pt \<le> launchZoneTop ph - r then
                   let dist = t * sqrt ((x direction)\<^sup>2 + (y direction)\<^sup>2) in
                   [\<lparr>point = pt, normal = \<lparr>x = - 1, y = 0\<rparr>, distance = dist\<rparr>]
                 else []
               else []
             else []);
          topHits =
            (if y direction < 0 then
               let t = (r - y origin) / y direction in
               if t > 0 then
                 let pt = \<lparr>x = x origin + x direction * t, y = r\<rparr> in
                 if x pt \<ge> r \<and> x pt \<le> gameWidth ph - r then
                   let dist = t * sqrt ((x direction)\<^sup>2 + (y direction)\<^sup>2) in
                   [\<lparr>point = pt, normal = \<lparr>x = 0, y = 1\<rparr>, distance = dist\<rparr>]
                 else []
               else []
             else [])
      in
      case leftHits @ rightHits @ topHits of
        [] \<Rightarrow> None
      | first # others \<Rightarrow>
          Some (foldl (\<lambda>closest hit. if distance hit < distance closest then hit else closest)
                  first others))"

text \<open>
  The upper end \<open>tMax\<close> of the ray parameter in \<open>raycastBrick\<close> starts as \<open>Infinity\<close>.
\<close>

datatype Bound = Finite real | Infinity

fun minBound :: "Bound \<Rightarrow> real \<Rightarrow> Bound" where
  "minBound Infinity t = Finite t"
| "minBound (Finite m) t = Finite (min m t)"

fun exceeds :: "real \<Rightarrow> Bound \<Rightarrow> bool" where
  "exceeds t Infinity = False"
| "exceeds t (Finite m) = (t > m)"

text \<open>
  \<open>Physics.raycastBrick\<close>. The two axis blocks update the locals \<open>tMin\<close>, \<open>tMax\<close> and
  \<open>hitNormal\<close> in turn; \<open>None\<close> is the early \<open>return null\<close>. The local \<open>_hitFace\<close> is
  never read and is left out.
\<close>

definition raycastBrick :: "Physics \<Rightarrow> Vector2 \<Rightarrow> Vector2 \<Rightarrow> BrickBounds \<Rightarrow> Hit option" where
  "raycastBrick ph origin direction bounds =
     (let r = ballRadius ph;
          expandedLeft = left bounds - r;
          expandedRight = right bounds + r;
          expandedTop = top' bounds - r;
          expandedBottom = bottom bounds + r;
          tMin0 = 0;
          tMax0 = Infinity;
          hitNormal0 = \<lparr>x = 0, y = 0\<rparr>;
          afterX =
            (if x direction \<noteq> 0 then
               let t1 = (expandedLeft - x origin) / x direction;
                   t2 = (expandedRight - x origin) / x direction;
                   tNear = min t1 t2;
                   tFar = max t1 t2;
                   (tMin1, hitNormal1) =
                     (if tNear > tMin0
                      then (tNear, if x direction > 0 then \<lparr>x = - 1, y = 0\<rparr> else \<lparr>x = 1, y = 0\<rparr>)
                      else (tMin0, hitNormal0))
               in Some (tMin1, minBound tMax0 tFar, hitNormal1)
             else if x origin < expandedLeft \<or> x origin > expandedRight then None
             else Some (tMin0, tMax0, hitNormal0))
      in
      case afterX of
        None \<Rightarrow> None
      | Some (tMin1, tMax1, hitNormal1) \<Rightarrow>
          let afterY =
            (if y direction \<noteq> 0 then
               let t1 = (expandedTop - y origin) / y direction;
                   t2 = (expandedBottom - y origin) / y direction;
                   tNear = min t1 t2;
                   tFar = max t1 t2;
                   (tMin2, hitNormal2) =
                     (if tNear > tMin1
                      then (tNear, if y direction > 0 then \<lparr>x = 0, y = - 1\<rparr> else \<lparr>x = 0, y = 1\<rparr>)
                      else (tMin1, hitNormal1))
               in Some (tMin2, minBound tMax1 tFar, hitNormal2)
             else if y origin < expandedTop \<or> y origin > expandedBottom then None
             else Some (tMin1, tMax1, hitNormal1))
          in
          case afterY of
            None \<Rightarrow> None
          | Some (tMin, tMax, hitNormal) \<Rightarrow>
              if exceeds tMin tMax \<or> tMin < 0 then None
              else
                let pt = \<lparr>x = x origin + x direction * tMin, y = y origin + y direction * tMin\<rparr>;
                    dist = tMin * sqrt ((x direction)\<^sup>2 + (y direction)\<^sup>2)
                in Some \<lparr>point = pt, normal = hitNormal, distance = dist\<rparr>)"

section \<open>TrajectoryCalculator\<close>

definition MAX_TRAJECTORY_BOUNCES :: nat where
  "MAX_TRAJECTORY_BOUNCES = 4"

record TrajectoryPoint =
  pt_position :: Vector2
  isBounce :: bool

text \<open>
  The loop over the bricks inside the \<open>while\<close> loop of \<open>calculateTrajectory\<close>: it refines
  \<open>closestHit\<close> with the hit of every brick that is not being destroyed.
\<close>

fun brickHitLoop ::
  "Physics \<Rightarrow> real \<Rightarrow> real \<Rightarrow> real \<Rightarrow> real \<Rightarrow> real \<Rightarrow> Vector2 \<Rightarrow> Vector2 \<Rightarrow>
   Hit option \<Rightarrow> Brick list \<Rightarrow> Hit option" where
  "brickHitLoop ph cellWidth cellHeight gridOffsetX gridOffsetY gap currentPos currentDir
     closestHit [] = closestHit"
| "brickHitLoop ph cellWidth cellHeight gridOffsetX gridOffsetY gap currentPos currentDir
     closestHit (brick # rest) =
     (if destroying brick then
        brickHitLoop ph cellWidth cellHeight gridOffsetX gridOffsetY gap currentPos currentDir
          closestHit rest
      else
        let bounds = getBrickBounds brick cellWidth cellHeight gridOffsetX gridOffsetY gap;
            brickHit = raycastBrick ph currentPos currentDir bounds;
            closestHit1 =
              (case brickHit of
                 None \<Rightarrow> closestHit
               | Some bh \<Rightarrow>
                   if distance bh > 0.1 then
                     (case closestHit of
                        None \<Rightarrow> Some bh
                      | Some ch \<Rightarrow> if distance bh < distance ch then Some bh else closestHit)
                   else closestHit)
        in brickHitLoop ph cellWidth cellHeight gridOffsetX gridOffsetY gap currentPos currentDir
             closestHit1 rest)"

text \<open>The closest wall or brick hit of one iteration of the \<open>while\<close> loop.\<close>

definition findClosestHit ::
  "Physics \<Rightarrow> Brick list \<Rightarrow> real \<Rightarrow> real \<Rightarrow> real \<Rightarrow> real \<Rightarrow> real \<Rightarrow> Vector2 \<Rightarrow> Vector2 \<Rightarrow>
   Hit option" where
  "findClosestHit ph bricks cellWidth cellHeight gridOffsetX gridOffsetY gap currentPos currentDir =
     (let wallHit = raycastWall ph currentPos currentDir;
          closestHit0 =
            (case wallHit of
               None \<Rightarrow> None
             | Some wh \<Rightarrow> if distance wh > 0.1 then Some wh else None)
      in brickHitLoop ph cellWidth cellHeight gridOffsetX gridOffsetY gap currentPos currentDir
           closestHit0 bricks)"

text \<open>
  The test for the path ending on the launch zone: the point on the bottom boundary when
  the loop breaks there, \<open>None\<close> when it goes on.
\<close>

definition bottomExit :: "real \<Rightarrow> Vector2 \<Rightarrow> Vector2 \<Rightarrow> Hit option \<Rightarrow> Vector2 option" where
  "bottomExit launchZoneTop' currentPos currentDir closestHit =
     (if y currentDir > 0 then
        let tBottom = (launchZoneTop' - y currentPos) / y currentDir in
        if tBottom > 0 then
          let bottomPoint = \<lparr>x = x currentPos + x currentDir * tBottom, y = launchZoneTop'\<rparr> in
          (case closestHit of
             None \<Rightarrow> Some bottomPoint
           | Some ch \<Rightarrow> if tBottom < distance ch then Some bottomPoint else None)
        else None
      else None)"

text \<open>
  The \<open>while\<close> loop of \<open>calculateTrajectory\<close>, from the state \<open>currentPos\<close>, \<open>currentDir\<close>,
  \<open>bounceCount\<close> and \<open>points\<close>; it returns the points, the direction and the bounce count
  at the exit, which the code after the loop reads.
\<close>

function trajectoryLoop ::
  "Physics \<Rightarrow> Brick list \<Rightarrow> real \<Rightarrow> real \<Rightarrow> real \<Rightarrow> real \<Rightarrow> real \<Rightarrow> real \<Rightarrow>
   Vector2 \<Rightarrow> Vector2 \<Rightarrow> nat \<Rightarrow> TrajectoryPoint list \<Rightarrow>
   TrajectoryPoint list \<times> Vector2 \<times> nat" where
  "trajectoryLoop ph bricks cellWidth cellHeight gridOffsetX gridOffsetY gap launchZoneTop'
     currentPos currentDir bounceCount points =
     (if bounceCount < MAX_TRAJECTORY_BOUNCES then
        let closestHit =
              findClosestHit ph bricks cellWidth cellHeight gridOffsetX gridOffsetY gap
                currentPos currentDir
        in
        case bottomExit launchZoneTop' currentPos currentDir closestHit of
          Some bottomPoint \<Rightarrow>
            (points @ [\<lparr>pt_position = bottomPoint, isBounce = False\<rparr>], currentDir, bounceCount)
        | None \<Rightarrow>
            (case closestHit of
               None \<Rightarrow>
                 let farPoint = \<lparr>x = x currentPos + x currentDir * 2000,
                                 y = y currentPos + y currentDir * 2000\<rparr>
                 in (points @ [\<lparr>pt_position = farPoint, isBounce = False\<rparr>], currentDir, bounceCount)
             | Some ch \<Rightarrow>
                 trajectoryLoop ph bricks cellWidth cellHeight gridOffsetX gridOffsetY gap
                   launchZoneTop' (point ch) (reflectVector currentDir (normal ch))
                   (bounceCount + 1) (points @ [\<lparr>pt_position = point ch, isBounce = True\<rparr>]))
      else (points, currentDir, bounceCount))"
  by pat_completeness auto
termination
  by (relation "measure (\<lambda>(ph, bricks, cw, ch, ox, oy, gap, lzt, pos, dir, bounceCount, points).
        MAX_TRAJECTORY_BOUNCES - bounceCount)") auto

definition calculateTrajectory ::
  "Physics \<Rightarrow> Vector2 \<Rightarrow> Vector2 \<Rightarrow> Brick list \<Rightarrow> real \<Rightarrow> real \<Rightarrow> real \<Rightarrow> real \<Rightarrow> real \<Rightarrow> real \<Rightarrow>
   TrajectoryPoint list" where
  "calculateTrajectory ph startPosition direction bricks cellWidth cellHeight gridOffsetX
     gridOffsetY gap launchZoneTop' =
     (let normalizedDir = normalizeVector direction;
          points0 = [\<lparr>pt_position = startPosition, isBounce = False\<rparr>];
          (points, currentDir, bounceCount) =
            trajectoryLoop ph bricks cellWidth cellHeight gridOffsetX gridOffsetY gap
              launchZoneTop' startPosition normalizedDir 0 points0
      in
      if bounceCount \<ge> MAX_TRAJECTORY_BOUNCES \<and> length points > 0 then
        let lastPoint = last points;
            farPoint = \<lparr>x = x (pt_position lastPoint) + x currentDir * 500,
                        y = y (pt_position lastPoint) + y currentDir * 500\<rparr>
        in points @ [\<lparr>pt_position = farPoint, isBounce = False\<rparr>]
      else points)"

section \<open>The brick invariant\<close>

text \<open>
  The invariant of a brick in the words of the specification: a brick that is not being
  destroyed has at least one hit left, and a brick that is being destroyed has none.
\<close>

definition brickInvariant :: "Brick \<Rightarrow> bool" where
  "brickInvariant b = (if destroying b then hits b = 0 else 1 \<le> hits b)"

section \<open>Regions around a brick\<close>

text \<open>
  The regions that \<open>checkBrickCollision\<close> tests, named for the statements below: the
  rectangle expanded by the ball radius, the four corner regions outside the unexpanded
  rectangle, and the corner of the brick nearest to a point of a corner region.
\<close>

definition insideExpanded :: "Physics \<Rightarrow> Vector2 \<Rightarrow> BrickBounds \<Rightarrow> bool" where
  "insideExpanded ph p bb \<longleftrightarrow>
     left bb - ballRadius ph \<le> x p \<and> x p \<le> right bb + ballRadius ph \<and>
     top' bb - ballRadius ph \<le> y p \<and> y p \<le> bottom bb + ballRadius ph"

definition inCornerRegion :: "Vector2 \<Rightarrow> BrickBounds \<Rightarrow> bool" where
  "inCornerRegion p bb \<longleftrightarrow>
     (x p < left bb \<or> x p > right bb) \<and> (y p < top' bb \<or> y p > bottom bb)"

definition nearestCorner :: "Vector2 \<Rightarrow> BrickBounds \<Rightarrow> Vector2" where
  "nearestCorner p bb =
     \<lparr>x = (if x p < left bb then left bb else right bb),
      y = (if y p < top' bb then top' bb else bottom bb)\<rparr>"

definition distanceBetween :: "Vector2 \<Rightarrow> Vector2 \<Rightarrow> real" where
  "distanceBetween p q = sqrt ((x p - x q)\<^sup>2 + (y p - y q)\<^sup>2)"

section \<open>C9: integration step\<close>

text \<open>
  C9, as stated: for every ball, \<open>updateBall\<close> moves the position by
  velocity * dt * m. The code returns at once for a ball that is not active, so the
  statement fails there: an inactive ball with velocity (1, 0) stays at the origin.
\<close>

theorem C9_updateBall_inactive_counterexample:
  "position (updateBall
      \<lparr>ball_id = 0, position = \<lparr>x = 0, y = 0\<rparr>, velocity = \<lparr>x = 1, y = 0\<rparr>, active = False\<rparr> 1 1)
     = \<lparr>x = 0, y = 0\<rparr>
   \<and> position (updateBall
      \<lparr>ball_id = 0, position = \<lparr>x = 0, y = 0\<rparr>, velocity = \<lparr>x = 1, y = 0\<rparr>, active = False\<rparr> 1 1)
     \<noteq> \<lparr>x = 0 + 1 * 1 * 1, y = 0 + 0 * 1 * 1\<rparr>"
  by (simp add: updateBall_def)

text \<open>
  C9, amended: for every active ball, \<open>updateBall\<close> sets the position to
  position + velocity * dt * m and changes nothing else (velocity, id and the active flag
  are the same); a ball that is not active is returned unchanged.
\<close>

theorem C9_updateBall_active:
  "(active ball \<longrightarrow>
      updateBall ball dt m =
        ball\<lparr>position := \<lparr>x = x (position ball) + x (velocity ball) * dt * m,
                          y = y (position ball) + y (velocity ball) * dt * m\<rparr>\<rparr>
      \<and> velocity (updateBall ball dt m) = velocity ball
      \<and> ball_id (updateBall ball dt m) = ball_id ball
      \<and> active (updateBall ball dt m) = active ball)
   \<and> (\<not> active ball \<longrightarrow> updateBall ball dt m = ball)"
  by (simp add: updateBall_def Let_def mult.assoc)

theorem C9_updateBall_active_witness:
  "active \<lparr>ball_id = 7, position = \<lparr>x = 10, y = 20\<rparr>, velocity = \<lparr>x = 3, y = -4\<rparr>, active = True\<rparr>
   \<and> updateBall
        \<lparr>ball_id = 7, position = \<lparr>x = 10, y = 20\<rparr>, velocity = \<lparr>x = 3, y = -4\<rparr>, active = True\<rparr>
        (1/2) 4
      = \<lparr>ball_id = 7, position = \<lparr>x = 16, y = 12\<rparr>, velocity = \<lparr>x = 3, y = -4\<rparr>, active = True\<rparr>
   \<and> \<not> active \<lparr>ball_id = 8, position = \<lparr>x = 10, y = 20\<rparr>, velocity = \<lparr>x = 3, y = -4\<rparr>, active = False\<rparr>
   \<and> updateBall
        \<lparr>ball_id = 8, position = \<lparr>x = 10, y = 20\<rparr>, velocity = \<lparr>x = 3, y = -4\<rparr>, active = False\<rparr>
        (1/2) 4
      = \<lparr>ball_id = 8, position = \<lparr>x = 10, y = 20\<rparr>, velocity = \<lparr>x = 3, y = -4\<rparr>, active = False\<rparr>"
  using C9_updateBall_active
    [of "\<lparr>ball_id = 7, position = \<lparr>x = 10, y = 20\<rparr>, velocity = \<lparr>x = 3, y = -4\<rparr>, active = True\<rparr>"
        "1/2" 4]
    C9_updateBall_active
    [of "\<lparr>ball_id = 8, position = \<lparr>x = 10, y = 20\<rparr>, velocity = \<lparr>x = 3, y = -4\<rparr>, active = False\<rparr>"
        "1/2" 4]
  by simp

section \<open>C1: wall reflection\<close>

text \<open>
  C1, as stated: every ball that strikes the left, right or top wall has its position
  clamped to that wall and its velocity component perpendicular to that wall negated.
  The code handles one wall per call, the first of left, right, top whose test holds.
  A ball in the top-left corner moving up and to the left strikes both walls; the call
  reflects it off the left wall only, and its vertical velocity and position stay as
  they were.
\<close>

theorem C1_wall_corner_counterexample:
  "y (position \<lparr>ball_id = 0, position = \<lparr>x = 5, y = 5\<rparr>, velocity = \<lparr>x = -1, y = -1\<rparr>, active = True\<rparr>)
      - ballRadius \<lparr>gameWidth = 400, gameHeight = 600, ballRadius = 8, launchZoneTop = 540\<rparr> \<le> 0
   \<and> y (velocity \<lparr>ball_id = 0, position = \<lparr>x = 5, y = 5\<rparr>, velocity = \<lparr>x = -1, y = -1\<rparr>, active = True\<rparr>) < 0
   \<and> checkWallCollision
        \<lparr>gameWidth = 400, gameHeight = 600, ballRadius = 8, launchZoneTop = 540\<rparr>
        \<lparr>ball_id = 0, position = \<lparr>x = 5, y = 5\<rparr>, velocity = \<lparr>x = -1, y = -1\<rparr>, active = True\<rparr>
      = (\<lparr>ball_id = 0, position = \<lparr>x = 8, y = 5\<rparr>, velocity = \<lparr>x = 1, y = -1\<rparr>, active = True\<rparr>,
         \<lparr>wall_collided = True, side = Some SideLeft\<rparr>)
   \<and> y (velocity (fst (checkWallCollision
        \<lparr>gameWidth = 400, gameHeight = 600, ballRadius = 8, launchZoneTop = 540\<rparr>
        \<lparr>ball_id = 0, position = \<lparr>x = 5, y = 5\<rparr>, velocity = \<lparr>x = -1, y = -1\<rparr>, active = True\<rparr>)))
      \<noteq> - (-1)"
  by (simp add: checkWallCollision_def)

text \<open>
  C1, amended: \<open>checkWallCollision\<close> handles exactly one wall per call, the first in the
  order left, right, top whose overlap test holds, whatever the velocity is: it clamps
  the position to that wall, makes the velocity component perpendicular to that wall
  point away from it (its absolute value towards the inside) and leaves everything else,
  the other coordinate, the parallel velocity component, the id and the active flag, as
  it was; a wall later in the order that the ball also overlaps is not handled in that
  call, and a ball that overlaps no wall is returned unchanged. So when the velocity
  points into the handled wall, the perpendicular component is negated exactly and the
  parallel component is unchanged. In every case the outgoing speed equals the incoming
  speed.
\<close>

theorem C1_wall_reflection:
  "(x (position ball) - ballRadius ph \<le> 0 \<and> x (velocity ball) < 0 \<longrightarrow>
      checkWallCollision ph ball =
        (ball\<lparr>position := \<lparr>x = ballRadius ph, y = y (position ball)\<rparr>,
              velocity := \<lparr>x = - x (velocity ball), y = y (velocity ball)\<rparr>\<rparr>,
         \<lparr>wall_collided = True, side = Some SideLeft\<rparr>))
   \<and> (\<not> x (position ball) - ballRadius ph \<le> 0
        \<and> x (position ball) + ballRadius ph \<ge> gameWidth ph \<and> x (velocity ball) > 0 \<longrightarrow>
      checkWallCollision ph ball =
        (ball\<lparr>position := \<lparr>x = gameWidth ph - ballRadius ph, y = y (position ball)\<rparr>,
              velocity := \<lparr>x = - x (velocity ball), y = y (velocity ball)\<rparr>\<rparr>,
         \<lparr>wall_collided = True, side = Some SideRight\<rparr>))
   \<and> (\<not> x (position ball) - ballRadius ph \<le> 0
        \<and> \<not> x (position ball) + ballRadius ph \<ge> gameWidth ph
        \<and> y (position ball) - ballRadius ph \<le> 0 \<and> y (velocity ball) < 0 \<longrightarrow>
      checkWallCollision ph ball =
        (ball\<lparr>position := \<lparr>x = x (position ball), y = ballRadius ph\<rparr>,
              velocity := \<lparr>x = x (velocity ball), y = - y (velocity ball)\<rparr>\<rparr>,
         \<lparr>wall_collided = True, side = Some SideTop\<rparr>))
   \<and> magnitude (velocity (fst (checkWallCollision ph ball))) = magnitude (velocity ball)
   \<and> (x (position ball) - ballRadius ph \<le> 0 \<longrightarrow>
      checkWallCollision ph ball =
        (ball\<lparr>position := \<lparr>x = ballRadius ph, y = y (position ball)\<rparr>,
              velocity := \<lparr>x = \<bar>x (velocity ball)\<bar>, y = y (velocity ball)\<rparr>\<rparr>,
         \<lparr>wall_collided = True, side = Some SideLeft\<rparr>))
   \<and> (\<not> x (position ball) - ballRadius ph \<le> 0
        \<and> x (position ball) + ballRadius ph \<ge> gameWidth ph \<longrightarrow>
      checkWallCollision ph ball =
        (ball\<lparr>position := \<lparr>x = gameWidth ph - ballRadius ph, y = y (position ball)\<rparr>,
              velocity := \<lparr>x = - \<bar>x (velocity ball)\<bar>, y = y (velocity ball)\<rparr>\<rparr>,
         \<lparr>wall_collided = True, side = Some SideRight\<rparr>))
   \<and> (\<not> x (position ball) - ballRadius ph \<le> 0
        \<and> \<not> x (position ball) + ballRadius ph \<ge> gameWidth ph
        \<and> y (position ball) - ballRadius ph \<le> 0 \<longrightarrow>
      checkWallCollision ph ball =
        (ball\<lparr>position := \<lparr>x = x (position ball), y = ballRadius ph\<rparr>,
              velocity := \<lparr>x = x (velocity ball), y = \<bar>y (velocity ball)\<bar>\<rparr>\<rparr>,
         \<lparr>wall_collided = True, side = Some SideTop\<rparr>))
   \<and> (\<not> x (position ball) - ballRadius ph \<le> 0
        \<and> \<not> x (position ball) + ballRadius ph \<ge> gameWidth ph
        \<and> \<not> y (position ball) - ballRadius ph \<le> 0 \<longrightarrow>
      checkWallCollision ph ball = (ball, \<lparr>wall_collided = False, side = None\<rparr>))"
  by (simp add: checkWallCollision_def Let_def magnitude_def)

theorem C1_wall_reflection_witness:
  "checkWallCollision
      \<lparr>gameWidth = 400, gameHeight = 600, ballRadius = 8, launchZoneTop = 540\<rparr>
      \<lparr>ball_id = 1, position = \<lparr>x = 6, y = 100\<rparr>, velocity = \<lparr>x = -3, y = 4\<rparr>, active = True\<rparr>
     = (\<lparr>ball_id = 1, position = \<lparr>x = 8, y = 100\<rparr>, velocity = \<lparr>x = 3, y = 4\<rparr>, active = True\<rparr>,
        \<lparr>wall_collided = True, side = Some SideLeft\<rparr>)
   \<and> checkWallCollision
      \<lparr>gameWidth = 400, gameHeight = 600, ballRadius = 8, launchZoneTop = 540\<rparr>
      \<lparr>ball_id = 2, position = \<lparr>x = 395, y = 100\<rparr>, velocity = \<lparr>x = 3, y = 4\<rparr>, active = True\<rparr>
     = (\<lparr>ball_id = 2, position = \<lparr>x = 392, y = 100\<rparr>, velocity = \<lparr>x = -3, y = 4\<rparr>, active = True\<rparr>,
        \<lparr>wall_collided = True, side = Some SideRight\<rparr>)
   \<and> checkWallCollision
      \<lparr>gameWidth = 400, gameHeight = 600, ballRadius = 8, launchZoneTop = 540\<rparr>
      \<lparr>ball_id = 3, position = \<lparr>x = 200, y = 2\<rparr>, velocity = \<lparr>x = 3, y = -4\<rparr>, active = True\<rparr>
     = (\<lparr>ball_id = 3, position = \<lparr>x = 200, y = 8\<rparr>, velocity = \<lparr>x = 3, y = 4\<rparr>, active = True\<rparr>,
        \<lparr>wall_collided = True, side = Some SideTop\<rparr>)
   \<and> checkWallCollision
      \<lparr>gameWidth = 400, gameHeight = 600, ballRadius = 8, launchZoneTop = 540\<rparr>
      \<lparr>ball_id = 4, position = \<lparr>x = 5, y = 5\<rparr>, velocity = \<lparr>x = 1, y = -1\<rparr>, active = True\<rparr>
     = (\<lparr>ball_id = 4, position = \<lparr>x = 8, y = 5\<rparr>, velocity = \<lparr>x = 1, y = -1\<rparr>, active = True\<rparr>,
        \<lparr>wall_collided = True, side = Some SideLeft\<rparr>)
   \<and> checkWallCollision
      \<lparr>gameWidth = 400, gameHeight = 600, ballRadius = 8, launchZoneTop = 540\<rparr>
      \<lparr>ball_id = 5, position = \<lparr>x = 395, y = 5\<rparr>, velocity = \<lparr>x = -3, y = -4\<rparr>, active = True\<rparr>
     = (\<lparr>ball_id = 5, position = \<lparr>x = 392, y = 5\<rparr>, velocity = \<lparr>x = -3, y = -4\<rparr>, active = True\<rparr>,
        \<lparr>wall_collided = True, side = Some SideRight\<rparr>)
   \<and> checkWallCollision
      \<lparr>gameWidth = 400, gameHeight = 600, ballRadius = 8, launchZoneTop = 540\<rparr>
      \<lparr>ball_id = 6, position = \<lparr>x = 200, y = 2\<rparr>, velocity = \<lparr>x = 3, y = 4\<rparr>, active = True\<rparr>
     = (\<lparr>ball_id = 6, position = \<lparr>x = 200, y = 8\<rparr>, velocity = \<lparr>x = 3, y = 4\<rparr>, active = True\<rparr>,
        \<lparr>wall_collided = True, side = Some SideTop\<rparr>)
   \<and> checkWallCollision
      \<lparr>gameWidth = 400, gameHeight = 600, ballRadius = 8, launchZoneTop = 540\<rparr>
      \<lparr>ball_id = 7, position = \<lparr>x = 200, y = 300\<rparr>, velocity = \<lparr>x = -3, y = -4\<rparr>, active = True\<rparr>
     = (\<lparr>ball_id = 7, position = \<lparr>x = 200, y = 300\<rparr>, velocity = \<lparr>x = -3, y = -4\<rparr>, active = True\<rparr>,
        \<lparr>wall_collided = False, side = None\<rparr>)"
  using
    C1_wall_reflection
      [of "\<lparr>ball_id = 1, position = \<lparr>x = 6, y = 100\<rparr>, velocity = \<lparr>x = -3, y = 4\<rparr>, active = True\<rparr>"
          "\<lparr>gameWidth = 400, gameHeight = 600, ballRadius = 8, launchZoneTop = 540\<rparr>"]
    C1_wall_reflection
      [of "\<lparr>ball_id = 2, position = \<lparr>x = 395, y = 100\<rparr>, velocity = \<lparr>x = 3, y = 4\<rparr>, active = True\<rparr>"
          "\<lparr>gameWidth = 400, gameHeight = 600, ballRadius = 8, launchZoneTop = 540\<rparr>"]
    C1_wall_reflection
      [of "\<lparr>ball_id = 3, position = \<lparr>x = 200, y = 2\<rparr>, velocity = \<lparr>x = 3, y = -4\<rparr>, active = True\<rparr>"
          "\<lparr>gameWidth = 400, gameHeight = 600, ballRadius = 8, launchZoneTop = 540\<rparr>"]
    C1_wall_reflection
      [of "\<lparr>ball_id = 4, position = \<lparr>x = 5, y = 5\<rparr>, velocity = \<lparr>x = 1, y = -1\<rparr>, active = True\<rparr>"
          "\<lparr>gameWidth = 400, gameHeight = 600, ballRadius = 8, launchZoneTop = 540\<rparr>"]
    C1_wall_reflection
      [of "\<lparr>ball_id = 5, position = \<lparr>x = 395, y = 5\<rparr>, velocity = \<lparr>x = -3, y = -4\<rparr>, active = True\<rparr>"
          "\<lparr>gameWidth = 400, gameHeight = 600, ballRadius = 8, launchZoneTop = 540\<rparr>"]
    C1_wall_reflection
      [of "\<lparr>ball_id = 6, position = \<lparr>x = 200, y = 2\<rparr>, velocity = \<lparr>x = 3, y = 4\<rparr>, active = True\<rparr>"
          "\<lparr>gameWidth = 400, gameHeight = 600, ballRadius = 8, launchZoneTop = 540\<rparr>"]
    C1_wall_reflection
      [of "\<lparr>ball_id = 7, position = \<lparr>x = 200, y = 300\<rparr>, velocity = \<lparr>x = -3, y = -4\<rparr>, active = True\<rparr>"
          "\<lparr>gameWidth = 400, gameHeight = 600, ballRadius = 8, launchZoneTop = 540\<rparr>"]
  by simp

section \<open>C2: shape of the predicted path\<close>

lemma trajectoryLoop_shape:
  assumes "trajectoryLoop ph bricks cw chh ox oy gap lzt pos dir bc pts = (pts', dir', bc')"
    and "pts \<noteq> []" and "length (filter isBounce pts) = bc" and "bc \<le> MAX_TRAJECTORY_BOUNCES"
  shows "pts' \<noteq> [] \<and> hd pts' = hd pts \<and> length (filter isBounce pts') = bc'
       \<and> bc' \<le> MAX_TRAJECTORY_BOUNCES
       \<and> (bc' < MAX_TRAJECTORY_BOUNCES \<longrightarrow> \<not> isBounce (last pts'))"
  using assms
proof (induction ph bricks cw chh ox oy gap lzt pos dir bc pts rule: trajectoryLoop.induct)
  case (1 ph bricks cw chh ox oy gap lzt pos dir bc pts)
  show ?case
  proof (cases "bc < MAX_TRAJECTORY_BOUNCES")
    case False
    with "1.prems" show ?thesis by simp
  next
    case inloop: True
    let ?closest = "findClosestHit ph bricks cw chh ox oy gap pos dir"
    show ?thesis
    proof (cases "bottomExit lzt pos dir ?closest")
      case (Some bp)
      with "1.prems" inloop show ?thesis
        by auto
    next
      case noexit: None
      show ?thesis
      proof (cases ?closest)
        case None
        with "1.prems" inloop noexit show ?thesis
          by (auto simp add: Let_def)
      next
        case (Some h)
        have step: "trajectoryLoop ph bricks cw chh ox oy gap lzt (point h)
            (reflectVector dir (normal h)) (bc + 1)
            (pts @ [\<lparr>pt_position = point h, isBounce = True\<rparr>]) = (pts', dir', bc')"
          using "1.prems"(1) inloop noexit Some by simp
        have "pts' \<noteq> [] \<and> hd pts' = hd (pts @ [\<lparr>pt_position = point h, isBounce = True\<rparr>])
            \<and> length (filter isBounce pts') = bc' \<and> bc' \<le> MAX_TRAJECTORY_BOUNCES
            \<and> (bc' < MAX_TRAJECTORY_BOUNCES \<longrightarrow> \<not> isBounce (last pts'))"
          using "1.IH" [OF inloop refl noexit Some step]
            "1.prems" inloop by simp
        with "1.prems" show ?thesis by simp
      qed
    qed
  qed
qed

text \<open>
  C2: for every start position, direction and brick list, the path returned by
  \<open>calculateTrajectory\<close> begins with the start position tagged non-bounce, holds at most
  \<open>MAX_TRAJECTORY_BOUNCES\<close> = 4 points tagged as bounces, and its last point is tagged
  non-bounce.
\<close>

theorem C2_trajectory_shape:
  "hd (calculateTrajectory ph startPosition direction bricks cw chh ox oy gap lzt)
      = \<lparr>pt_position = startPosition, isBounce = False\<rparr>
   \<and> length (filter isBounce (calculateTrajectory ph startPosition direction bricks cw chh ox oy gap lzt))
      \<le> MAX_TRAJECTORY_BOUNCES
   \<and> MAX_TRAJECTORY_BOUNCES = 4
   \<and> calculateTrajectory ph startPosition direction bricks cw chh ox oy gap lzt \<noteq> []
   \<and> \<not> isBounce (last (calculateTrajectory ph startPosition direction bricks cw chh ox oy gap lzt))"
proof -
  obtain pts' dir' bc' where run:
    "trajectoryLoop ph bricks cw chh ox oy gap lzt startPosition (normalizeVector direction) 0
       [\<lparr>pt_position = startPosition, isBounce = False\<rparr>] = (pts', dir', bc')"
    by (metis prod_cases3)
  have shape: "pts' \<noteq> [] \<and> hd pts' = hd [\<lparr>pt_position = startPosition, isBounce = False\<rparr>]
       \<and> length (filter isBounce pts') = bc' \<and> bc' \<le> MAX_TRAJECTORY_BOUNCES
       \<and> (bc' < MAX_TRAJECTORY_BOUNCES \<longrightarrow> \<not> isBounce (last pts'))"
    by (rule trajectoryLoop_shape [OF run]) simp_all
  show ?thesis
    using shape by (auto simp add: calculateTrajectory_def Let_def run MAX_TRAJECTORY_BOUNCES_def
        simp del: trajectoryLoop.simps)
qed

theorem C2_trajectory_shape_witness:
  "calculateTrajectory
      \<lparr>gameWidth = 400, gameHeight = 600, ballRadius = 8, launchZoneTop = 540\<rparr>
      \<lparr>x = 200, y = 300\<rparr> \<lparr>x = 0, y = 2\<rparr> [] 42 22 15 133 2 540
     = [\<lparr>pt_position = \<lparr>x = 200, y = 300\<rparr>, isBounce = False\<rparr>,
        \<lparr>pt_position = \<lparr>x = 200, y = 540\<rparr>, isBounce = False\<rparr>]
   \<and> length (filter isBounce (calculateTrajectory
      \<lparr>gameWidth = 400, gameHeight = 600, ballRadius = 8, launchZoneTop = 540\<rparr>
      \<lparr>x = 200, y = 300\<rparr> \<lparr>x = 0, y = 2\<rparr> [] 42 22 15 133 2 540)) \<le> 4"
proof -
  have n: "normalizeVector \<lparr>x = 0, y = 2\<rparr> = \<lparr>x = 0, y = 1\<rparr>"
    by (simp add: normalizeVector_def magnitude_def)
  have c: "findClosestHit \<lparr>gameWidth = 400, gameHeight = 600, ballRadius = 8, launchZoneTop = 540\<rparr>
      [] 42 22 15 133 2 \<lparr>x = 200, y = 300\<rparr> \<lparr>x = 0, y = 1\<rparr> = None"
    by (simp add: findClosestHit_def raycastWall_def)
  have b: "bottomExit 540 \<lparr>x = 200, y = 300\<rparr> \<lparr>x = 0, y = 1\<rparr> None = Some \<lparr>x = 200, y = 540\<rparr>"
    by (simp add: bottomExit_def)
  have run: "calculateTrajectory
      \<lparr>gameWidth = 400, gameHeight = 600, ballRadius = 8, launchZoneTop = 540\<rparr>
      \<lparr>x = 200, y = 300\<rparr> \<lparr>x = 0, y = 2\<rparr> [] 42 22 15 133 2 540
     = [\<lparr>pt_position = \<lparr>x = 200, y = 300\<rparr>, isBounce = False\<rparr>,
        \<lparr>pt_position = \<lparr>x = 200, y = 540\<rparr>, isBounce = False\<rparr>]"
    by (simp add: calculateTrajectory_def n c b MAX_TRAJECTORY_BOUNCES_def)
  from C2_trajectory_shape
    [of "\<lparr>gameWidth = 400, gameHeight = 600, ballRadius = 8, launchZoneTop = 540\<rparr>"
        "\<lparr>x = 200, y = 300\<rparr>" "\<lparr>x = 0, y = 2\<rparr>" "[]" 42 22 15 133 2 540] run
  show ?thesis by simp
qed

section \<open>C10: ray cast from inside a brick\<close>


lemma slab_straddles:
  fixes a b d :: real
  assumes "a < 0" and "0 < b"
  shows "0 < d \<Longrightarrow> a / d < 0 \<and> 0 < b / d" and "d < 0 \<Longrightarrow> 0 < a / d \<and> b / d < 0"
  using assms by (simp_all add: divide_less_0_iff zero_less_divide_iff)

lemma raycastBrick_inside:
  assumes "left bounds - ballRadius ph < x origin" and "x origin < right bounds + ballRadius ph"
    and "top' bounds - ballRadius ph < y origin" and "y origin < bottom bounds + ballRadius ph"
  shows "raycastBrick ph origin direction bounds
      = Some \<lparr>point = origin, normal = \<lparr>x = 0, y = 0\<rparr>, distance = 0\<rparr>"
proof -
  note X = slab_straddles [of "left bounds - ballRadius ph - x origin"
        "right bounds + ballRadius ph - x origin" "x direction"]
  note Y = slab_straddles [of "top' bounds - ballRadius ph - y origin"
        "bottom bounds + ballRadius ph - y origin" "y direction"]
  consider (zero) "x direction = 0" | (pos) "0 < x direction" | (neg) "x direction < 0"
    by linarith
  then show ?thesis
  proof cases
    case zero
    consider (zero') "y direction = 0" | (pos') "0 < y direction" | (neg') "y direction < 0"
      by linarith
    then show ?thesis
    proof cases
      case zero'
      with zero assms show ?thesis by (simp add: raycastBrick_def Let_def)
    next
      case pos'
      with zero assms Y(1) show ?thesis by (simp add: raycastBrick_def Let_def min_def max_def divide_less_0_iff zero_less_divide_iff divide_le_cancel divide_less_cancel)
    next
      case neg'
      with zero assms Y(2) show ?thesis by (simp add: raycastBrick_def Let_def min_def max_def divide_less_0_iff zero_less_divide_iff divide_le_cancel divide_less_cancel)
    qed
  next
    case pos
    consider (zero') "y direction = 0" | (pos') "0 < y direction" | (neg') "y direction < 0"
      by linarith
    then show ?thesis
    proof cases
      case zero'
      with pos assms X(1) show ?thesis by (simp add: raycastBrick_def Let_def min_def max_def divide_less_0_iff zero_less_divide_iff divide_le_cancel divide_less_cancel)
    next
      case pos'
      with pos assms X(1) Y(1) show ?thesis by (simp add: raycastBrick_def Let_def min_def max_def divide_less_0_iff zero_less_divide_iff divide_le_cancel divide_less_cancel)
    next
      case neg'
      with pos assms X(1) Y(2) show ?thesis by (simp add: raycastBrick_def Let_def min_def max_def divide_less_0_iff zero_less_divide_iff divide_le_cancel divide_less_cancel)
    qed
  next
    case neg
    consider (zero') "y direction = 0" | (pos') "0 < y direction" | (neg') "y direction < 0"
      by linarith
    then show ?thesis
    proof cases
      case zero'
      with neg assms X(2) show ?thesis by (simp add: raycastBrick_def Let_def min_def max_def divide_less_0_iff zero_less_divide_iff divide_le_cancel divide_less_cancel)
    next
      case pos'
      with neg assms X(2) Y(1) show ?thesis by (simp add: raycastBrick_def Let_def min_def max_def divide_less_0_iff zero_less_divide_iff divide_le_cancel divide_less_cancel)
    next
      case neg'
      with neg assms X(2) Y(2) show ?thesis by (simp add: raycastBrick_def Let_def min_def max_def divide_less_0_iff zero_less_divide_iff divide_le_cancel divide_less_cancel)
    qed
  qed
qed

lemma raycastBrick_normal:
  assumes "raycastBrick ph origin direction bounds = Some h" and "distance h > 0"
  shows "normal h \<noteq> \<lparr>x = 0, y = 0\<rparr>"
  using assms
  by (auto simp add: raycastBrick_def Let_def split: if_splits prod.splits option.splits)


lemma closest_of_hits:
  "foldl (\<lambda>closest hit. if distance hit < distance closest then hit else closest) first others
     \<in> set (first # others)"
  by (induction others arbitrary: first) auto

lemma raycastWall_normal:
  assumes "raycastWall ph origin direction = Some h"
  shows "normal h \<noteq> \<lparr>x = 0, y = 0\<rparr>"
proof -
  define hs where "hs =
     (if x direction < 0 then
        let t = (ballRadius ph - x origin) / x direction in
        if t > 0 then
          let pt = \<lparr>x = ballRadius ph, y = y origin + y direction * t\<rparr> in
          if y pt \<ge> ballRadius ph \<and> y pt \<le> launchZoneTop ph - ballRadius ph then
            let dist = t * sqrt ((x direction)\<^sup>2 + (y direction)\<^sup>2) in
            [\<lparr>point = pt, normal = \<lparr>x = 1, y = 0\<rparr>, distance = dist\<rparr>]
          else []
        else []
      else []) @
     (if x direction > 0 then
        let t = (gameWidth ph - ballRadius ph - x origin) / x direction in
        if t > 0 then
          let pt = \<lparr>x = gameWidth ph - ballRadius ph, y = y origin + y direction * t\<rparr> in
          if y pt \<ge> ballRadius ph \<and> y pt \<le> launchZoneTop ph - ballRadius ph then
            let dist = t * sqrt ((x direction)\<^sup>2 + (y direction)\<^sup>2) in
            [\<lparr>point = pt, normal = \<lparr>x = - 1, y = 0\<rparr>, distance = dist\<rparr>]
          else []
        else []
      else []) @
     (if y direction < 0 then
        let t = (ballRadius ph - y origin) / y direction in
        if t > 0 then
          let pt = \<lparr>x = x origin + x direction * t, y = ballRadius ph\<rparr> in
          if x pt \<ge> ballRadius ph \<and> x pt \<le> gameWidth ph - ballRadius ph then
            let dist = t * sqrt ((x direction)\<^sup>2 + (y direction)\<^sup>2) in
            [\<lparr>point = pt, normal = \<lparr>x = 0, y = 1\<rparr>, distance = dist\<rparr>]
          else []
        else []
      else [])"
  have all: "\<forall>k \<in> set hs. normal k \<noteq> \<lparr>x = 0, y = 0\<rparr>"
    by (auto simp add: hs_def Let_def split: if_splits)
  have rw: "raycastWall ph origin direction =
      (case hs of [] \<Rightarrow> None
       | first # others \<Rightarrow>
          Some (foldl (\<lambda>closest hit. if distance hit < distance closest then hit else closest)
                  first others))"
    by (simp add: raycastWall_def hs_def Let_def)
  from assms obtain first others where hs: "hs = first # others"
    and h: "h = foldl (\<lambda>closest hit. if distance hit < distance closest then hit else closest)
                  first others"
    unfolding rw by (auto split: list.splits)
  have "h \<in> set hs" unfolding hs h by (rule closest_of_hits)
  with all show ?thesis by blast
qed

lemma brickHitLoop_normal:
  assumes "brickHitLoop ph cw chh ox oy gap pos dir closest0 bricks = Some h"
    and "\<And>h0. closest0 = Some h0 \<Longrightarrow> normal h0 \<noteq> \<lparr>x = 0, y = 0\<rparr> \<and> distance h0 > 0.1"
  shows "normal h \<noteq> \<lparr>x = 0, y = 0\<rparr> \<and> distance h > 0.1"
  using assms
proof (induction bricks arbitrary: closest0)
  case Nil
  then show ?case by simp
next
  case (Cons brick rest)
  show ?case
  proof (cases "destroying brick")
    case True
    with Cons.prems Cons.IH [of closest0] show ?thesis by simp
  next
    case False
    define closest1 where "closest1 =
       (case raycastBrick ph pos dir (getBrickBounds brick cw chh ox oy gap) of
          None \<Rightarrow> closest0
        | Some bh \<Rightarrow>
            if distance bh > 0.1 then
              (case closest0 of
                 None \<Rightarrow> Some bh
               | Some c \<Rightarrow> if distance bh < distance c then Some bh else closest0)
            else closest0)"
    have ok: "\<And>h1. closest1 = Some h1 \<Longrightarrow> normal h1 \<noteq> \<lparr>x = 0, y = 0\<rparr> \<and> distance h1 > 0.1"
      using Cons.prems(2) raycastBrick_normal [of ph pos dir "getBrickBounds brick cw chh ox oy gap"]
      by (auto simp add: closest1_def split: option.splits if_splits)
    have "brickHitLoop ph cw chh ox oy gap pos dir closest1 rest = Some h"
      using Cons.prems(1) False by (simp add: closest1_def Let_def)
    then show ?thesis using ok by (rule Cons.IH)
  qed
qed

lemma findClosestHit_normal:
  assumes "findClosestHit ph bricks cw chh ox oy gap pos dir = Some h"
  shows "normal h \<noteq> \<lparr>x = 0, y = 0\<rparr> \<and> distance h > 0.1"
proof (rule brickHitLoop_normal)
  show "brickHitLoop ph cw chh ox oy gap pos dir
      (case raycastWall ph pos dir of None \<Rightarrow> None
       | Some wh \<Rightarrow> if distance wh > 0.1 then Some wh else None) bricks = Some h"
    using assms by (simp add: findClosestHit_def Let_def)
next
  fix h0
  assume "(case raycastWall ph pos dir of None \<Rightarrow> None
       | Some wh \<Rightarrow> if distance wh > 0.1 then Some wh else None) = Some h0"
  then have "raycastWall ph pos dir = Some h0" and "distance h0 > 0.1"
    by (auto split: option.splits if_splits)
  then show "normal h0 \<noteq> \<lparr>x = 0, y = 0\<rparr> \<and> distance h0 > 0.1"
    using raycastWall_normal by blast
qed


lemma brickHitLoop_skips_inside:
  assumes "\<not> destroying brick"
    and "left (getBrickBounds brick cw chh ox oy gap) - ballRadius ph < x pos"
    and "x pos < right (getBrickBounds brick cw chh ox oy gap) + ballRadius ph"
    and "top' (getBrickBounds brick cw chh ox oy gap) - ballRadius ph < y pos"
    and "y pos < bottom (getBrickBounds brick cw chh ox oy gap) + ballRadius ph"
  shows "brickHitLoop ph cw chh ox oy gap pos dir closest (brick # rest)
       = brickHitLoop ph cw chh ox oy gap pos dir closest rest"
  using assms(1) raycastBrick_inside [OF assms(2-5), of dir]
  by (simp add: Let_def)

text \<open>
  C10: for an origin strictly inside the radius-expanded bounds of a brick and any
  direction, the zero vector included, \<open>raycastBrick\<close> returns a hit whose point is the
  origin, whose distance is 0 and whose normal is the zero vector. The brick loop of
  \<open>calculateTrajectory\<close> drops that hit, since its distance is not above 0.1, and every
  hit that the loop passes on to \<open>reflectVector\<close> has a distance above 0.1 and a normal
  other than the zero vector.
\<close>

theorem C10_degenerate_brick_hit:
  "(left bounds - ballRadius ph < x origin \<and> x origin < right bounds + ballRadius ph
      \<and> top' bounds - ballRadius ph < y origin \<and> y origin < bottom bounds + ballRadius ph
     \<longrightarrow> raycastBrick ph origin direction bounds
           = Some \<lparr>point = origin, normal = \<lparr>x = 0, y = 0\<rparr>, distance = 0\<rparr>)
   \<and> (\<not> destroying brick
      \<and> left (getBrickBounds brick cw chh ox oy gap) - ballRadius ph < x origin
      \<and> x origin < right (getBrickBounds brick cw chh ox oy gap) + ballRadius ph
      \<and> top' (getBrickBounds brick cw chh ox oy gap) - ballRadius ph < y origin
      \<and> y origin < bottom (getBrickBounds brick cw chh ox oy gap) + ballRadius ph
     \<longrightarrow> brickHitLoop ph cw chh ox oy gap origin direction closest (brick # rest)
           = brickHitLoop ph cw chh ox oy gap origin direction closest rest)
   \<and> (\<forall>h. findClosestHit ph bricks cw chh ox oy gap origin direction = Some h
     \<longrightarrow> normal h \<noteq> \<lparr>x = 0, y = 0\<rparr> \<and> distance h > 0.1)"
proof (intro conjI impI allI)
  assume "left bounds - ballRadius ph < x origin \<and> x origin < right bounds + ballRadius ph
      \<and> top' bounds - ballRadius ph < y origin \<and> y origin < bottom bounds + ballRadius ph"
  then show "raycastBrick ph origin direction bounds
           = Some \<lparr>point = origin, normal = \<lparr>x = 0, y = 0\<rparr>, distance = 0\<rparr>"
    by (simp add: raycastBrick_inside)
next
  assume "\<not> destroying brick
      \<and> left (getBrickBounds brick cw chh ox oy gap) - ballRadius ph < x origin
      \<and> x origin < right (getBrickBounds brick cw chh ox oy gap) + ballRadius ph
      \<and> top' (getBrickBounds brick cw chh ox oy gap) - ballRadius ph < y origin
      \<and> y origin < bottom (getBrickBounds brick cw chh ox oy gap) + ballRadius ph"
  then show "brickHitLoop ph cw chh ox oy gap origin direction closest (brick # rest)
           = brickHitLoop ph cw chh ox oy gap origin direction closest rest"
    by (intro brickHitLoop_skips_inside) simp_all
next
  fix h
  assume "findClosestHit ph bricks cw chh ox oy gap origin direction = Some h"
  then show "normal h \<noteq> \<lparr>x = 0, y = 0\<rparr>" and "distance h > 0.1"
    using findClosestHit_normal by blast+
qed

theorem C10_degenerate_brick_hit_witness:
  "raycastBrick \<lparr>gameWidth = 400, gameHeight = 600, ballRadius = 8, launchZoneTop = 540\<rparr>
      \<lparr>x = 120, y = 210\<rparr> \<lparr>x = 0, y = 0\<rparr> \<lparr>left = 100, right = 140, top' = 200, bottom = 220\<rparr>
     = Some \<lparr>point = \<lparr>x = 120, y = 210\<rparr>, normal = \<lparr>x = 0, y = 0\<rparr>, distance = 0\<rparr>
   \<and> brickHitLoop \<lparr>gameWidth = 400, gameHeight = 600, ballRadius = 8, launchZoneTop = 540\<rparr>
        42 22 15 133 2 \<lparr>x = 120, y = 210\<rparr> \<lparr>x = 0, y = - 1\<rparr> None
        [\<lparr>brick_id = 0, gridX = 2, gridY = 3, hits = 5, destroying = False, destroyProgress = 0\<rparr>]
     = None
   \<and> findClosestHit \<lparr>gameWidth = 400, gameHeight = 600, ballRadius = 8, launchZoneTop = 540\<rparr>
        [\<lparr>brick_id = 0, gridX = 2, gridY = 3, hits = 5, destroying = False, destroyProgress = 0\<rparr>]
        42 22 15 133 2 \<lparr>x = 120, y = 210\<rparr> \<lparr>x = 0, y = - 1\<rparr>
     = Some \<lparr>point = \<lparr>x = 120, y = 8\<rparr>, normal = \<lparr>x = 0, y = 1\<rparr>, distance = 202\<rparr>"
  using C10_degenerate_brick_hit
    [of "\<lparr>left = 100, right = 140, top' = 200, bottom = 220\<rparr>"
        "\<lparr>gameWidth = 400, gameHeight = 600, ballRadius = 8, launchZoneTop = 540\<rparr>"
        "\<lparr>x = 120, y = 210\<rparr>" "\<lparr>x = 0, y = 0\<rparr>"
        "\<lparr>brick_id = 0, gridX = 2, gridY = 3, hits = 5, destroying = False, destroyProgress = 0\<rparr>"
        42 22 15 133 2 None "[]" "[]"]
    C10_degenerate_brick_hit
    [of "\<lparr>left = 100, right = 140, top' = 200, bottom = 220\<rparr>"
        "\<lparr>gameWidth = 400, gameHeight = 600, ballRadius = 8, launchZoneTop = 540\<rparr>"
        "\<lparr>x = 120, y = 210\<rparr>" "\<lparr>x = 0, y = - 1\<rparr>"
        "\<lparr>brick_id = 0, gridX = 2, gridY = 3, hits = 5, destroying = False, destroyProgress = 0\<rparr>"
        42 22 15 133 2 None "[]"
        "[\<lparr>brick_id = 0, gridX = 2, gridY = 3, hits = 5, destroying = False, destroyProgress = 0\<rparr>]"]
  by (simp add: findClosestHit_def raycastWall_def getBrickBounds_def Let_def)

section \<open>C3: no second collision right after a hit\<close>

lemma sqrt_ratio:
  assumes "a \<noteq> 0"
  shows "sqrt (1 + (b / a)\<^sup>2) = sqrt (a\<^sup>2 + b\<^sup>2) / \<bar>a\<bar>"
proof -
  have "1 + (b / a)\<^sup>2 = (a\<^sup>2 + b\<^sup>2) / a\<^sup>2"
    using assms by (simp add: field_simps power2_eq_square)
  then show ?thesis
    by (simp add: real_sqrt_divide)
qed

lemma cos_atan2:
  assumes "a \<noteq> 0 \<or> b \<noteq> 0"
  shows "cos (atan2 b a) = a / sqrt (a\<^sup>2 + b\<^sup>2)"
proof -
  consider "a > 0" | "a < 0" | "a = 0" "b \<noteq> 0" using assms by fastforce
  then show ?thesis
  proof cases
    case 1
    then show ?thesis by (simp add: atan2_def cos_arctan sqrt_ratio)
  next
    case 2
    then show ?thesis by (simp add: atan2_def cos_arctan sqrt_ratio)
  next
    case 3
    then show ?thesis by (simp add: atan2_def)
  qed
qed

lemma sin_atan2:
  assumes "a \<noteq> 0 \<or> b \<noteq> 0"
  shows "sin (atan2 b a) = b / sqrt (a\<^sup>2 + b\<^sup>2)"
proof -
  consider "a > 0" | "a < 0" | "a = 0" "b > 0" | "a = 0" "b < 0" using assms by fastforce
  then show ?thesis
  proof cases
    case 1
    then show ?thesis by (simp add: atan2_def sin_arctan sqrt_ratio)
  next
    case 2
    then show ?thesis by (simp add: atan2_def sin_arctan sqrt_ratio)
  next
    case 3
    then show ?thesis by (simp add: atan2_def)
  next
    case 4
    then show ?thesis by (simp add: atan2_def)
  qed
qed

lemma corner_push:
  assumes nz: "dx \<noteq> 0 \<or> dy \<noteq> 0" and le: "sqrt (dx\<^sup>2 + dy\<^sup>2) \<le> r"
  defines "s \<equiv> (r + 1) / sqrt (dx\<^sup>2 + dy\<^sup>2)"
  shows "cos (atan2 dy dx) * (r + 1) = dx * s"
    and "sin (atan2 dy dx) * (r + 1) = dy * s"
    and "1 < s"
    and "sqrt ((dx * s)\<^sup>2 + (dy * s)\<^sup>2) = r + 1"
proof -
  have pos: "0 < sqrt (dx\<^sup>2 + dy\<^sup>2)"
    using nz by (auto simp add: sum_power2_gt_zero_iff)
  show "cos (atan2 dy dx) * (r + 1) = dx * s"
    using nz by (simp add: cos_atan2 s_def)
  show "sin (atan2 dy dx) * (r + 1) = dy * s"
    using nz by (simp add: sin_atan2 s_def)
  show s1: "1 < s"
    using pos le by (simp add: s_def)
  have "(dx * s)\<^sup>2 + (dy * s)\<^sup>2 = (dx\<^sup>2 + dy\<^sup>2) * s\<^sup>2"
    by (simp add: power_mult_distrib distrib_right)
  then have "sqrt ((dx * s)\<^sup>2 + (dy * s)\<^sup>2) = sqrt (dx\<^sup>2 + dy\<^sup>2) * s"
    using s1 by (simp add: real_sqrt_mult)
  also have "\<dots> = r + 1"
    using pos by (auto simp add: s_def)
  finally show "sqrt ((dx * s)\<^sup>2 + (dy * s)\<^sup>2) = r + 1" .
qed

lemma checkBrickCollision_outside:
  assumes "\<not> insideExpanded ph (position ball) bb"
  shows "checkBrickCollision ph ball bb = (ball, \<lparr>collided = False, face = None\<rparr>)"
proof -
  have "x (position ball) < left bb - ballRadius ph \<or> x (position ball) > right bb + ballRadius ph
      \<or> y (position ball) < top' bb - ballRadius ph \<or> y (position ball) > bottom bb + ballRadius ph"
    using assms by (auto simp add: insideExpanded_def)
  then show ?thesis
    unfolding checkBrickCollision_def Let_def by (rule if_P)
qed

lemma checkBrickCollision_corner:
  assumes "insideExpanded ph (position ball) bb" and "inCornerRegion (position ball) bb"
  shows "checkBrickCollision ph ball bb =
     (if distanceBetween (position ball) (nearestCorner (position ball) bb) \<le> ballRadius ph then
        (ball\<lparr>velocity := \<lparr>x = - x (velocity ball), y = - y (velocity ball)\<rparr>,
              position :=
                \<lparr>x = x (nearestCorner (position ball) bb)
                      + cos (atan2 (y (position ball) - y (nearestCorner (position ball) bb))
                                   (x (position ball) - x (nearestCorner (position ball) bb)))
                        * (ballRadius ph + 1),
                 y = y (nearestCorner (position ball) bb)
                      + sin (atan2 (y (position ball) - y (nearestCorner (position ball) bb))
                                   (x (position ball) - x (nearestCorner (position ball) bb)))
                        * (ballRadius ph + 1)\<rparr>\<rparr>,
         \<lparr>collided = True, face = Some FaceCorner\<rparr>)
      else (ball, \<lparr>collided = False, face = None\<rparr>))"
proof -
  have a: "\<not> (x (position ball) < left bb - ballRadius ph \<or> x (position ball) > right bb + ballRadius ph
      \<or> y (position ball) < top' bb - ballRadius ph \<or> y (position ball) > bottom bb + ballRadius ph)"
    using assms(1) by (auto simp add: insideExpanded_def)
  have b: "(x (position ball) < left bb \<or> x (position ball) > right bb)
      \<and> (y (position ball) < top' bb \<or> y (position ball) > bottom bb)"
    using assms(2) by (simp add: inCornerRegion_def)
  show ?thesis
    unfolding checkBrickCollision_def Let_def if_not_P [OF a] if_P [OF b]
    by (simp add: distanceBetween_def nearestCorner_def)
qed

lemma checkBrickCollision_face:
  assumes "insideExpanded ph (position ball) bb" and "\<not> inCornerRegion (position ball) bb"
  shows "checkBrickCollision ph ball bb =
     (if min (x (position ball) - (left bb - ballRadius ph))
             (right bb + ballRadius ph - x (position ball))
         < min (y (position ball) - (top' bb - ballRadius ph))
               (bottom bb + ballRadius ph - y (position ball))
      then
        (if x (position ball) - (left bb - ballRadius ph)
            < right bb + ballRadius ph - x (position ball)
         then (ball\<lparr>velocity := (velocity ball)\<lparr>x := - \<bar>x (velocity ball)\<bar>\<rparr>,
                    position := (position ball)\<lparr>x := left bb - ballRadius ph - 1\<rparr>\<rparr>,
               \<lparr>collided = True, face = Some FaceLeft\<rparr>)
         else (ball\<lparr>velocity := (velocity ball)\<lparr>x := \<bar>x (velocity ball)\<bar>\<rparr>,
                    position := (position ball)\<lparr>x := right bb + ballRadius ph + 1\<rparr>\<rparr>,
               \<lparr>collided = True, face = Some FaceRight\<rparr>))
      else
        (if y (position ball) - (top' bb - ballRadius ph)
            < bottom bb + ballRadius ph - y (position ball)
         then (ball\<lparr>velocity := (velocity ball)\<lparr>y := - \<bar>y (velocity ball)\<bar>\<rparr>,
                    position := (position ball)\<lparr>y := top' bb - ballRadius ph - 1\<rparr>\<rparr>,
               \<lparr>collided = True, face = Some FaceTop\<rparr>)
         else (ball\<lparr>velocity := (velocity ball)\<lparr>y := \<bar>y (velocity ball)\<bar>\<rparr>,
                    position := (position ball)\<lparr>y := bottom bb + ballRadius ph + 1\<rparr>\<rparr>,
               \<lparr>collided = True, face = Some FaceBottom\<rparr>)))"
proof -
  have a: "\<not> (x (position ball) < left bb - ballRadius ph \<or> x (position ball) > right bb + ballRadius ph
      \<or> y (position ball) < top' bb - ballRadius ph \<or> y (position ball) > bottom bb + ballRadius ph)"
    using assms(1) by (auto simp add: insideExpanded_def)
  have b: "\<not> ((x (position ball) < left bb \<or> x (position ball) > right bb)
      \<and> (y (position ball) < top' bb \<or> y (position ball) > bottom bb))"
    using assms(2) by (simp add: inCornerRegion_def)
  show ?thesis
    unfolding checkBrickCollision_def Let_def if_not_P [OF a] if_not_P [OF b]
    by (rule refl)
qed

lemma scale_away:
  fixes d s :: real
  assumes "1 < s"
  shows "d < 0 \<Longrightarrow> d * s < 0" and "0 < d \<Longrightarrow> d < d * s"
  using assms by (simp_all add: mult_neg_pos)

lemma collision_regions:
  assumes "checkBrickCollision ph ball bb = (ball1, res1)" and "collided res1"
  shows "insideExpanded ph (position ball) bb"
    and "face res1 = Some FaceCorner \<Longrightarrow> inCornerRegion (position ball) bb"
    and "face res1 \<noteq> Some FaceCorner \<Longrightarrow> \<not> inCornerRegion (position ball) bb"
proof -
  show inside: "insideExpanded ph (position ball) bb"
    using assms checkBrickCollision_outside [of ph ball bb] by (cases "insideExpanded ph (position ball) bb") auto
  show "inCornerRegion (position ball) bb" if "face res1 = Some FaceCorner"
  proof (rule ccontr)
    assume "\<not> inCornerRegion (position ball) bb"
    from checkBrickCollision_face [OF inside this] assms(1) that
    show False by (auto split: if_splits)
  qed
  show "\<not> inCornerRegion (position ball) bb" if "face res1 \<noteq> Some FaceCorner"
  proof
    assume "inCornerRegion (position ball) bb"
    from checkBrickCollision_corner [OF inside this] assms that
    show False by (auto split: if_splits)
  qed
qed

lemma face_hit_outside:
  assumes "checkBrickCollision ph ball bb = (ball1, res1)" and "collided res1"
    and "face res1 \<noteq> Some FaceCorner"
  shows "\<not> insideExpanded ph (position ball1) bb"
    and "face res1 = Some FaceLeft \<Longrightarrow> x (position ball1) = left bb - ballRadius ph - 1"
    and "face res1 = Some FaceRight \<Longrightarrow> x (position ball1) = right bb + ballRadius ph + 1"
    and "face res1 = Some FaceTop \<Longrightarrow> y (position ball1) = top' bb - ballRadius ph - 1"
    and "face res1 = Some FaceBottom \<Longrightarrow> y (position ball1) = bottom bb + ballRadius ph + 1"
proof -
  note regions = collision_regions [OF assms(1,2)]
  note eq = checkBrickCollision_face [OF regions(1) regions(3) [OF assms(3)]]
  show "\<not> insideExpanded ph (position ball1) bb"
    using eq assms(1) by (auto simp add: insideExpanded_def split: if_splits)
  show "x (position ball1) = left bb - ballRadius ph - 1" if "face res1 = Some FaceLeft"
    using eq assms(1) that by (auto split: if_splits)
  show "x (position ball1) = right bb + ballRadius ph + 1" if "face res1 = Some FaceRight"
    using eq assms(1) that by (auto split: if_splits)
  show "y (position ball1) = top' bb - ballRadius ph - 1" if "face res1 = Some FaceTop"
    using eq assms(1) that by (auto split: if_splits)
  show "y (position ball1) = bottom bb + ballRadius ph + 1" if "face res1 = Some FaceBottom"
    using eq assms(1) that by (auto split: if_splits)
qed

lemma corner_hit_pushed:
  assumes "checkBrickCollision ph ball bb = (ball1, res1)" and "collided res1"
    and "face res1 = Some FaceCorner"
  shows "inCornerRegion (position ball1) bb"
    and "nearestCorner (position ball1) bb = nearestCorner (position ball) bb"
    and "distanceBetween (position ball1) (nearestCorner (position ball) bb) = ballRadius ph + 1"
proof -
  define r where "r = ballRadius ph"
  define px where "px = x (position ball)"
  define py where "py = y (position ball)"
  define cx where "cx = x (nearestCorner (position ball) bb)"
  define cy where "cy = y (nearestCorner (position ball) bb)"
  define dx where "dx = px - cx"
  define dy where "dy = py - cy"
  define s where "s = (r + 1) / sqrt (dx\<^sup>2 + dy\<^sup>2)"
  note regions = collision_regions [OF assms(1,2)]
  note eq = checkBrickCollision_corner [OF regions(1) regions(2) [OF assms(3)]]
  have near: "sqrt (dx\<^sup>2 + dy\<^sup>2) \<le> r"
    using eq assms(1,2)
    by (auto simp add: distanceBetween_def dx_def dy_def px_def py_def cx_def cy_def r_def
        split: if_splits)
  have b1: "position ball1 =
        \<lparr>x = cx + cos (atan2 dy dx) * (r + 1), y = cy + sin (atan2 dy dx) * (r + 1)\<rparr>"
    using eq assms(1,2)
    by (auto simp add: dx_def dy_def px_def py_def cx_def cy_def r_def split: if_splits)
  have inX: "px < left bb \<or> px > right bb" and inY: "py < top' bb \<or> py > bottom bb"
    using regions(2) [OF assms(3)] by (simp_all add: inCornerRegion_def px_def py_def)
  have cxv: "cx = (if px < left bb then left bb else right bb)"
    and cyv: "cy = (if py < top' bb then top' bb else bottom bb)"
    by (simp_all add: cx_def cy_def nearestCorner_def px_def py_def)
  have nz: "dx \<noteq> 0 \<or> dy \<noteq> 0"
    using inX by (auto simp add: dx_def cxv)
  have s1: "1 < s"
    and far: "sqrt ((dx * s)\<^sup>2 + (dy * s)\<^sup>2) = r + 1"
    and pos1: "position ball1 = \<lparr>x = cx + dx * s, y = cy + dy * s\<rparr>"
    using corner_push [OF nz near] b1 by (simp_all add: s_def)
  have X1: "(x (position ball1) < left bb \<or> x (position ball1) > right bb)
        \<and> (if x (position ball1) < left bb then left bb else right bb) = cx"
  proof -
    consider (lo) "px < left bb" | (hi) "\<not> px < left bb" "px > right bb"
      using inX by blast
    then show ?thesis
    proof cases
      case lo
      then have "cx = left bb" "dx < 0" by (simp_all add: cxv dx_def)
      moreover from this have "dx * s < 0" using scale_away(1) [OF s1] by simp
      ultimately show ?thesis by (simp add: pos1)
    next
      case hi
      then have c: "cx = right bb" "0 < dx" by (simp_all add: cxv dx_def)
      then have "dx < dx * s" using scale_away(2) [OF s1] by simp
      then have "px < cx + dx * s" by (simp add: dx_def)
      with hi c show ?thesis by (simp add: pos1)
    qed
  qed
  have Y1: "(y (position ball1) < top' bb \<or> y (position ball1) > bottom bb)
        \<and> (if y (position ball1) < top' bb then top' bb else bottom bb) = cy"
  proof -
    consider (lo) "py < top' bb" | (hi) "\<not> py < top' bb" "py > bottom bb"
      using inY by blast
    then show ?thesis
    proof cases
      case lo
      then have "cy = top' bb" "dy < 0" by (simp_all add: cyv dy_def)
      moreover from this have "dy * s < 0" using scale_away(1) [OF s1] by simp
      ultimately show ?thesis by (simp add: pos1)
    next
      case hi
      then have c: "cy = bottom bb" "0 < dy" by (simp_all add: cyv dy_def)
      then have "dy < dy * s" using scale_away(2) [OF s1] by simp
      then have "py < cy + dy * s" by (simp add: dy_def)
      with hi c show ?thesis by (simp add: pos1)
    qed
  qed
  show "inCornerRegion (position ball1) bb"
    using X1 Y1 by (simp add: inCornerRegion_def)
  show "nearestCorner (position ball1) bb = nearestCorner (position ball) bb"
    using X1 Y1 by (simp add: nearestCorner_def cxv cyv px_def py_def)
  show "distanceBetween (position ball1) (nearestCorner (position ball) bb) = ballRadius ph + 1"
    using far by (simp add: distanceBetween_def pos1 cx_def [symmetric] cy_def [symmetric] r_def)
qed

lemma second_call_no_collision:
  assumes "checkBrickCollision ph ball bb = (ball1, res1)" and "collided res1"
  shows "checkBrickCollision ph ball1 bb = (ball1, \<lparr>collided = False, face = None\<rparr>)"
proof (cases "face res1 = Some FaceCorner")
  case False
  show ?thesis
    using face_hit_outside(1) [OF assms False] by (rule checkBrickCollision_outside)
next
  case True
  note pushed = corner_hit_pushed [OF assms True]
  show ?thesis
  proof (cases "insideExpanded ph (position ball1) bb")
    case False
    then show ?thesis by (rule checkBrickCollision_outside)
  next
    case inside: True
    show ?thesis
      using pushed(3)
      by (simp add: checkBrickCollision_corner [OF inside pushed(1)] pushed(2))
  qed
qed

lemma brickCollisionStep_twice:
  assumes live: "\<not> destroying brick"
    and hit: "collided (snd (checkBrickCollision ph ball (getBrickBounds brick cw chh ox oy gap)))"
    and step: "brickCollisionStep ph cw chh ox oy gap ball brick = (ball1, brick1)"
  shows "hits brick1 = hits brick - 1"
    and "brickCollisionStep ph cw chh ox oy gap ball1 brick1 = (ball1, brick1)"
proof -
  let ?bb = "getBrickBounds brick cw chh ox oy gap"
  obtain b res where call: "checkBrickCollision ph ball ?bb = (b, res)"
    by (cases "checkBrickCollision ph ball ?bb")
  with hit have c: "collided res" by simp
  have unfolded: "brickCollisionStep ph cw chh ox oy gap ball brick =
      (if hits brick - 1 \<le> 0
       then (b, brick\<lparr>hits := hits brick - 1, destroying := True, destroyProgress := 0\<rparr>)
       else (b, brick\<lparr>hits := hits brick - 1\<rparr>))"
    using live c by (simp add: brickCollisionStep_def call Let_def)
  from step unfolded have b1: "ball1 = b"
    and k1: "brick1 = (if hits brick - 1 \<le> 0
                then brick\<lparr>hits := hits brick - 1, destroying := True, destroyProgress := 0\<rparr>
                else brick\<lparr>hits := hits brick - 1\<rparr>)"
    by (auto split: if_splits)
  show "hits brick1 = hits brick - 1" by (simp add: k1)
  have same: "getBrickBounds brick1 cw chh ox oy gap = ?bb"
    by (simp add: k1 getBrickBounds_def)
  have again: "checkBrickCollision ph ball1 ?bb = (ball1, \<lparr>collided = False, face = None\<rparr>)"
    using second_call_no_collision [OF call c] b1 by simp
  show "brickCollisionStep ph cw chh ox oy gap ball1 brick1 = (ball1, brick1)"
    by (simp add: brickCollisionStep_def same again)
qed

lemma sqrt_25: "sqrt 25 = 5"
  by (rule real_sqrt_unique) simp_all

lemma corner_example:
  "checkBrickCollision
      \<lparr>gameWidth = 400, gameHeight = 600, ballRadius = 8, launchZoneTop = 540\<rparr>
      \<lparr>ball_id = 2, position = \<lparr>x = 97, y = 196\<rparr>, velocity = \<lparr>x = 300, y = 300\<rparr>, active = True\<rparr>
      \<lparr>left = 100, right = 140, top' = 200, bottom = 220\<rparr>
   = (\<lparr>ball_id = 2, position = \<lparr>x = 473 / 5, y = 964 / 5\<rparr>, velocity = \<lparr>x = - 300, y = - 300\<rparr>,
       active = True\<rparr>,
      \<lparr>collided = True, face = Some FaceCorner\<rparr>)"
proof -
  let ?ph = "\<lparr>gameWidth = 400, gameHeight = 600, ballRadius = 8, launchZoneTop = 540\<rparr>"
  let ?c = "\<lparr>ball_id = 2, position = \<lparr>x = 97, y = 196\<rparr>, velocity = \<lparr>x = 300, y = 300\<rparr>, active = True\<rparr>"
  let ?bb = "\<lparr>left = 100, right = 140, top' = 200, bottom = 220\<rparr>"
  have inside: "insideExpanded ?ph (position ?c) ?bb"
    by (simp add: insideExpanded_def)
  have corner: "inCornerRegion (position ?c) ?bb"
    by (simp add: inCornerRegion_def)
  have nz: "(- 3 :: real) \<noteq> 0 \<or> (- 4 :: real) \<noteq> 0" by simp
  have c: "cos (atan2 (- 4) (- 3)) = - 3 / 5" and s: "sin (atan2 (- 4) (- 3)) = - 4 / 5"
    using cos_atan2 [OF nz] sin_atan2 [OF nz] by (simp_all add: sqrt_25)
  show ?thesis
    by (simp add: checkBrickCollision_corner [OF inside corner] nearestCorner_def
        distanceBetween_def sqrt_25 c s)
qed

lemma face_example:
  "checkBrickCollision
      \<lparr>gameWidth = 400, gameHeight = 600, ballRadius = 8, launchZoneTop = 540\<rparr>
      \<lparr>ball_id = 0, position = \<lparr>x = 95, y = 210\<rparr>, velocity = \<lparr>x = 300, y = 40\<rparr>, active = True\<rparr>
      \<lparr>left = 100, right = 140, top' = 200, bottom = 220\<rparr>
     = (\<lparr>ball_id = 0, position = \<lparr>x = 91, y = 210\<rparr>, velocity = \<lparr>x = - 300, y = 40\<rparr>, active = True\<rparr>,
        \<lparr>collided = True, face = Some FaceLeft\<rparr>)"
proof -
  let ?ph = "\<lparr>gameWidth = 400, gameHeight = 600, ballRadius = 8, launchZoneTop = 540\<rparr>"
  let ?a = "\<lparr>ball_id = 0, position = \<lparr>x = 95, y = 210\<rparr>, velocity = \<lparr>x = 300, y = 40\<rparr>, active = True\<rparr>"
  let ?bb = "\<lparr>left = 100, right = 140, top' = 200, bottom = 220\<rparr>"
  have inside: "insideExpanded ?ph (position ?a) ?bb"
    by (simp add: insideExpanded_def)
  have face: "\<not> inCornerRegion (position ?a) ?bb"
    by (simp add: inCornerRegion_def)
  show ?thesis
    by (simp add: checkBrickCollision_face [OF inside face])
qed

text \<open>
  C3, as stated: after every reported collision the ball lies outside the
  radius-expanded bounds of the brick. That fails for corner hits: the ball is put at
  distance radius + 1 from the corner, which can still be inside the expanded rectangle.
  With radius 8 and a brick from (100, 200) to (140, 220), the ball at (97, 196) is at
  distance 5 from the top-left corner; the corner hit moves it to (94.6, 192.8), inside
  the expanded rectangle from (92, 192) to (148, 228).
\<close>

theorem C3_corner_push_counterexample:
  "snd (checkBrickCollision
          \<lparr>gameWidth = 400, gameHeight = 600, ballRadius = 8, launchZoneTop = 540\<rparr>
          \<lparr>ball_id = 2, position = \<lparr>x = 97, y = 196\<rparr>, velocity = \<lparr>x = 300, y = 300\<rparr>, active = True\<rparr>
          \<lparr>left = 100, right = 140, top' = 200, bottom = 220\<rparr>)
     = \<lparr>collided = True, face = Some FaceCorner\<rparr>
   \<and> position (fst (checkBrickCollision
          \<lparr>gameWidth = 400, gameHeight = 600, ballRadius = 8, launchZoneTop = 540\<rparr>
          \<lparr>ball_id = 2, position = \<lparr>x = 97, y = 196\<rparr>, velocity = \<lparr>x = 300, y = 300\<rparr>, active = True\<rparr>
          \<lparr>left = 100, right = 140, top' = 200, bottom = 220\<rparr>))
     = \<lparr>x = 473 / 5, y = 964 / 5\<rparr>
   \<and> insideExpanded
        \<lparr>gameWidth = 400, gameHeight = 600, ballRadius = 8, launchZoneTop = 540\<rparr>
        (position (fst (checkBrickCollision
          \<lparr>gameWidth = 400, gameHeight = 600, ballRadius = 8, launchZoneTop = 540\<rparr>
          \<lparr>ball_id = 2, position = \<lparr>x = 97, y = 196\<rparr>, velocity = \<lparr>x = 300, y = 300\<rparr>, active = True\<rparr>
          \<lparr>left = 100, right = 140, top' = 200, bottom = 220\<rparr>)))
        \<lparr>left = 100, right = 140, top' = 200, bottom = 220\<rparr>"
  by (simp add: corner_example insideExpanded_def)

text \<open>
  C3, amended: whenever \<open>checkBrickCollision\<close> reports a collision, an immediate second
  call with the resulting ball and the same bounds reports no collision and leaves the
  ball as it is. After a face hit the ball lies outside the radius-expanded bounds, one
  unit beyond the expanded boundary of that face; after a corner hit it lies in the
  corner region at distance radius + 1 from that corner. So the loop body of
  \<open>updateAnimating\<close>, run twice in a row for the same ball and a brick that it hits,
  takes exactly one hit off the brick: the second run changes neither the brick nor the
  ball.
\<close>

theorem C3_no_immediate_recollision:
  "(collided (snd (checkBrickCollision ph ball bb)) \<longrightarrow>
      checkBrickCollision ph (fst (checkBrickCollision ph ball bb)) bb
        = (fst (checkBrickCollision ph ball bb), \<lparr>collided = False, face = None\<rparr>)
      \<and> (face (snd (checkBrickCollision ph ball bb)) \<noteq> Some FaceCorner \<longrightarrow>
           \<not> insideExpanded ph (position (fst (checkBrickCollision ph ball bb))) bb)
      \<and> (face (snd (checkBrickCollision ph ball bb)) = Some FaceLeft \<longrightarrow>
           x (position (fst (checkBrickCollision ph ball bb))) = left bb - ballRadius ph - 1)
      \<and> (face (snd (checkBrickCollision ph ball bb)) = Some FaceRight \<longrightarrow>
           x (position (fst (checkBrickCollision ph ball bb))) = right bb + ballRadius ph + 1)
      \<and> (face (snd (checkBrickCollision ph ball bb)) = Some FaceTop \<longrightarrow>
           y (position (fst (checkBrickCollision ph ball bb))) = top' bb - ballRadius ph - 1)
      \<and> (face (snd (checkBrickCollision ph ball bb)) = Some FaceBottom \<longrightarrow>
           y (position (fst (checkBrickCollision ph ball bb))) = bottom bb + ballRadius ph + 1)
      \<and> (face (snd (checkBrickCollision ph ball bb)) = Some FaceCorner \<longrightarrow>
           inCornerRegion (position (fst (checkBrickCollision ph ball bb))) bb
           \<and> distanceBetween (position (fst (checkBrickCollision ph ball bb)))
                 (nearestCorner (position ball) bb) = ballRadius ph + 1))
   \<and> (\<not> destroying brick
       \<and> collided (snd (checkBrickCollision ph ball (getBrickBounds brick cw chh ox oy gap))) \<longrightarrow>
      hits (snd (brickCollisionStep ph cw chh ox oy gap ball brick)) = hits brick - 1
      \<and> brickCollisionStep ph cw chh ox oy gap
           (fst (brickCollisionStep ph cw chh ox oy gap ball brick))
           (snd (brickCollisionStep ph cw chh ox oy gap ball brick))
         = brickCollisionStep ph cw chh ox oy gap ball brick)"
proof (intro conjI impI)
  assume c: "collided (snd (checkBrickCollision ph ball bb))"
  have call: "checkBrickCollision ph ball bb
      = (fst (checkBrickCollision ph ball bb), snd (checkBrickCollision ph ball bb))"
    by simp
  show "checkBrickCollision ph (fst (checkBrickCollision ph ball bb)) bb
        = (fst (checkBrickCollision ph ball bb), \<lparr>collided = False, face = None\<rparr>)"
    using call c by (rule second_call_no_collision)
  show "\<not> insideExpanded ph (position (fst (checkBrickCollision ph ball bb))) bb"
    if "face (snd (checkBrickCollision ph ball bb)) \<noteq> Some FaceCorner"
    using face_hit_outside(1) [OF call c that] .
  show "x (position (fst (checkBrickCollision ph ball bb))) = left bb - ballRadius ph - 1"
    if "face (snd (checkBrickCollision ph ball bb)) = Some FaceLeft"
    using face_hit_outside(2) [OF call c _ that] that by simp
  show "x (position (fst (checkBrickCollision ph ball bb))) = right bb + ballRadius ph + 1"
    if "face (snd (checkBrickCollision ph ball bb)) = Some FaceRight"
    using face_hit_outside(3) [OF call c _ that] that by simp
  show "y (position (fst (checkBrickCollision ph ball bb))) = top' bb - ballRadius ph - 1"
    if "face (snd (checkBrickCollision ph ball bb)) = Some FaceTop"
    using face_hit_outside(4) [OF call c _ that] that by simp
  show "y (position (fst (checkBrickCollision ph ball bb))) = bottom bb + ballRadius ph + 1"
    if "face (snd (checkBrickCollision ph ball bb)) = Some FaceBottom"
    using face_hit_outside(5) [OF call c _ that] that by simp
  show "inCornerRegion (position (fst (checkBrickCollision ph ball bb))) bb"
    if "face (snd (checkBrickCollision ph ball bb)) = Some FaceCorner"
    using corner_hit_pushed(1) [OF call c that] .
  show "distanceBetween (position (fst (checkBrickCollision ph ball bb)))
          (nearestCorner (position ball) bb) = ballRadius ph + 1"
    if "face (snd (checkBrickCollision ph ball bb)) = Some FaceCorner"
    using corner_hit_pushed(3) [OF call c that] .
next
  assume a: "\<not> destroying brick
       \<and> collided (snd (checkBrickCollision ph ball (getBrickBounds brick cw chh ox oy gap)))"
  have step: "brickCollisionStep ph cw chh ox oy gap ball brick
      = (fst (brickCollisionStep ph cw chh ox oy gap ball brick),
         snd (brickCollisionStep ph cw chh ox oy gap ball brick))"
    by simp
  from a have live: "\<not> destroying brick"
    and hit: "collided (snd (checkBrickCollision ph ball (getBrickBounds brick cw chh ox oy gap)))"
    by simp_all
  show "hits (snd (brickCollisionStep ph cw chh ox oy gap ball brick)) = hits brick - 1"
    using brickCollisionStep_twice(1) [OF live hit step] .
  show "brickCollisionStep ph cw chh ox oy gap
           (fst (brickCollisionStep ph cw chh ox oy gap ball brick))
           (snd (brickCollisionStep ph cw chh ox oy gap ball brick))
         = brickCollisionStep ph cw chh ox oy gap ball brick"
    using brickCollisionStep_twice(2) [OF live hit step] by simp
qed

theorem C3_no_immediate_recollision_witness:
  "checkBrickCollision
      \<lparr>gameWidth = 400, gameHeight = 600, ballRadius = 8, launchZoneTop = 540\<rparr>
      \<lparr>ball_id = 0, position = \<lparr>x = 95, y = 210\<rparr>, velocity = \<lparr>x = 300, y = 40\<rparr>, active = True\<rparr>
      \<lparr>left = 100, right = 140, top' = 200, bottom = 220\<rparr>
     = (\<lparr>ball_id = 0, position = \<lparr>x = 91, y = 210\<rparr>, velocity = \<lparr>x = - 300, y = 40\<rparr>, active = True\<rparr>,
        \<lparr>collided = True, face = Some FaceLeft\<rparr>)
   \<and> checkBrickCollision
      \<lparr>gameWidth = 400, gameHeight = 600, ballRadius = 8, launchZoneTop = 540\<rparr>
      \<lparr>ball_id = 0, position = \<lparr>x = 91, y = 210\<rparr>, velocity = \<lparr>x = - 300, y = 40\<rparr>, active = True\<rparr>
      \<lparr>left = 100, right = 140, top' = 200, bottom = 220\<rparr>
     = (\<lparr>ball_id = 0, position = \<lparr>x = 91, y = 210\<rparr>, velocity = \<lparr>x = - 300, y = 40\<rparr>, active = True\<rparr>,
        \<lparr>collided = False, face = None\<rparr>)
   \<and> checkBrickCollision
      \<lparr>gameWidth = 400, gameHeight = 600, ballRadius = 8, launchZoneTop = 540\<rparr>
      \<lparr>ball_id = 2, position = \<lparr>x = 97, y = 196\<rparr>, velocity = \<lparr>x = 300, y = 300\<rparr>, active = True\<rparr>
      \<lparr>left = 100, right = 140, top' = 200, bottom = 220\<rparr>
     = (\<lparr>ball_id = 2, position = \<lparr>x = 473 / 5, y = 964 / 5\<rparr>, velocity = \<lparr>x = - 300, y = - 300\<rparr>,
         active = True\<rparr>,
        \<lparr>collided = True, face = Some FaceCorner\<rparr>)
   \<and> checkBrickCollision
      \<lparr>gameWidth = 400, gameHeight = 600, ballRadius = 8, launchZoneTop = 540\<rparr>
      \<lparr>ball_id = 2, position = \<lparr>x = 473 / 5, y = 964 / 5\<rparr>, velocity = \<lparr>x = - 300, y = - 300\<rparr>,
         active = True\<rparr>
      \<lparr>left = 100, right = 140, top' = 200, bottom = 220\<rparr>
     = (\<lparr>ball_id = 2, position = \<lparr>x = 473 / 5, y = 964 / 5\<rparr>, velocity = \<lparr>x = - 300, y = - 300\<rparr>,
         active = True\<rparr>,
        \<lparr>collided = False, face = None\<rparr>)
   \<and> hits (snd (brickCollisionStep
      \<lparr>gameWidth = 400, gameHeight = 600, ballRadius = 8, launchZoneTop = 540\<rparr> 42 22 15 133 2
      \<lparr>ball_id = 0, position = \<lparr>x = 95, y = 210\<rparr>, velocity = \<lparr>x = 300, y = 40\<rparr>, active = True\<rparr>
      \<lparr>brick_id = 0, gridX = 2, gridY = 3, hits = 5, destroying = False, destroyProgress = 0\<rparr>)) = 4
   \<and> brickCollisionStep
      \<lparr>gameWidth = 400, gameHeight = 600, ballRadius = 8, launchZoneTop = 540\<rparr> 42 22 15 133 2
      \<lparr>ball_id = 0, position = \<lparr>x = 91, y = 210\<rparr>, velocity = \<lparr>x = - 300, y = 40\<rparr>, active = True\<rparr>
      \<lparr>brick_id = 0, gridX = 2, gridY = 3, hits = 4, destroying = False, destroyProgress = 0\<rparr>
     = (\<lparr>ball_id = 0, position = \<lparr>x = 91, y = 210\<rparr>, velocity = \<lparr>x = - 300, y = 40\<rparr>, active = True\<rparr>,
        \<lparr>brick_id = 0, gridX = 2, gridY = 3, hits = 4, destroying = False, destroyProgress = 0\<rparr>)"
proof -
  let ?ph = "\<lparr>gameWidth = 400, gameHeight = 600, ballRadius = 8, launchZoneTop = 540\<rparr>"
  let ?bb = "\<lparr>left = 100, right = 140, top' = 200, bottom = 220\<rparr>"
  let ?a = "\<lparr>ball_id = 0, position = \<lparr>x = 95, y = 210\<rparr>, velocity = \<lparr>x = 300, y = 40\<rparr>, active = True\<rparr>"
  let ?c = "\<lparr>ball_id = 2, position = \<lparr>x = 97, y = 196\<rparr>, velocity = \<lparr>x = 300, y = 300\<rparr>, active = True\<rparr>"
  let ?k = "\<lparr>brick_id = 0, gridX = 2, gridY = 3, hits = 5, destroying = False, destroyProgress = 0\<rparr>"
  have bounds: "getBrickBounds ?k 42 22 15 133 2 = ?bb"
    by (simp add: getBrickBounds_def)
  have step: "brickCollisionStep ?ph 42 22 15 133 2 ?a ?k
     = (\<lparr>ball_id = 0, position = \<lparr>x = 91, y = 210\<rparr>, velocity = \<lparr>x = - 300, y = 40\<rparr>, active = True\<rparr>,
        \<lparr>brick_id = 0, gridX = 2, gridY = 3, hits = 4, destroying = False, destroyProgress = 0\<rparr>)"
    by (simp add: brickCollisionStep_def bounds face_example)
  from C3_no_immediate_recollision [of ?ph ?a ?bb ?k 42 22 15 133 2]
  have one: "checkBrickCollision ?ph
        \<lparr>ball_id = 0, position = \<lparr>x = 91, y = 210\<rparr>, velocity = \<lparr>x = - 300, y = 40\<rparr>, active = True\<rparr> ?bb
      = (\<lparr>ball_id = 0, position = \<lparr>x = 91, y = 210\<rparr>, velocity = \<lparr>x = - 300, y = 40\<rparr>, active = True\<rparr>,
         \<lparr>collided = False, face = None\<rparr>)"
    and three: "brickCollisionStep ?ph 42 22 15 133 2
        \<lparr>ball_id = 0, position = \<lparr>x = 91, y = 210\<rparr>, velocity = \<lparr>x = - 300, y = 40\<rparr>, active = True\<rparr>
        \<lparr>brick_id = 0, gridX = 2, gridY = 3, hits = 4, destroying = False, destroyProgress = 0\<rparr>
      = (\<lparr>ball_id = 0, position = \<lparr>x = 91, y = 210\<rparr>, velocity = \<lparr>x = - 300, y = 40\<rparr>, active = True\<rparr>,
        \<lparr>brick_id = 0, gridX = 2, gridY = 3, hits = 4, destroying = False, destroyProgress = 0\<rparr>)"
    by (simp_all add: face_example bounds step)
  from C3_no_immediate_recollision [of ?ph ?c ?bb ?k 42 22 15 133 2]
  have two: "checkBrickCollision ?ph
        \<lparr>ball_id = 2, position = \<lparr>x = 473 / 5, y = 964 / 5\<rparr>, velocity = \<lparr>x = - 300, y = - 300\<rparr>,
           active = True\<rparr> ?bb
      = (\<lparr>ball_id = 2, position = \<lparr>x = 473 / 5, y = 964 / 5\<rparr>, velocity = \<lparr>x = - 300, y = - 300\<rparr>,
           active = True\<rparr>,
         \<lparr>collided = False, face = None\<rparr>)"
    by (simp add: corner_example)
  show ?thesis
    using one two three by (simp add: face_example corner_example step)
qed

section \<open>C4: corner bounce\<close>

text \<open>
  C4: with ball radius 8, a ball whose centre is left of the left edge and above the top
  edge of the brick, inside the radius-expanded bounds and at distance at most 8 from the
  top-left corner, moving diagonally down and to the right (equal positive velocity
  components), is reported as a corner hit, and both velocity components are negated.
\<close>

theorem C4_corner_bounce:
  assumes "ballRadius ph = 8"
    and "x (position ball) < left bb" and "y (position ball) < top' bb"
    and "left bb - 8 \<le> x (position ball)" and "x (position ball) \<le> right bb + 8"
    and "top' bb - 8 \<le> y (position ball)" and "y (position ball) \<le> bottom bb + 8"
    and "sqrt ((x (position ball) - left bb)\<^sup>2 + (y (position ball) - top' bb)\<^sup>2) \<le> 8"
    and "x (velocity ball) = y (velocity ball)" and "0 < x (velocity ball)"
  shows "snd (checkBrickCollision ph ball bb) = \<lparr>collided = True, face = Some FaceCorner\<rparr>
       \<and> velocity (fst (checkBrickCollision ph ball bb))
           = \<lparr>x = - x (velocity ball), y = - y (velocity ball)\<rparr>"
proof -
  have inside: "insideExpanded ph (position ball) bb"
    using assms(1,4-7) by (simp add: insideExpanded_def)
  have corner: "inCornerRegion (position ball) bb"
    using assms(2,3) by (simp add: inCornerRegion_def)
  have near: "distanceBetween (position ball) (nearestCorner (position ball) bb) \<le> ballRadius ph"
    using assms(1,2,3,8) by (simp add: distanceBetween_def nearestCorner_def)
  show ?thesis
    using near by (simp add: checkBrickCollision_corner [OF inside corner])
qed

theorem C4_corner_bounce_witness:
  "snd (checkBrickCollision
          \<lparr>gameWidth = 400, gameHeight = 600, ballRadius = 8, launchZoneTop = 540\<rparr>
          \<lparr>ball_id = 0, position = \<lparr>x = 97, y = 196\<rparr>, velocity = \<lparr>x = 300, y = 300\<rparr>, active = True\<rparr>
          \<lparr>left = 100, right = 140, top' = 200, bottom = 220\<rparr>)
     = \<lparr>collided = True, face = Some FaceCorner\<rparr>
   \<and> velocity (fst (checkBrickCollision
          \<lparr>gameWidth = 400, gameHeight = 600, ballRadius = 8, launchZoneTop = 540\<rparr>
          \<lparr>ball_id = 0, position = \<lparr>x = 97, y = 196\<rparr>, velocity = \<lparr>x = 300, y = 300\<rparr>, active = True\<rparr>
          \<lparr>left = 100, right = 140, top' = 200, bottom = 220\<rparr>))
     = \<lparr>x = - 300, y = - 300\<rparr>"
proof -
  have "sqrt ((97 - 100)\<^sup>2 + (196 - 200)\<^sup>2) \<le> (8 :: real)"
    by (simp add: sqrt_25)
  with C4_corner_bounce
    [of "\<lparr>gameWidth = 400, gameHeight = 600, ballRadius = 8, launchZoneTop = 540\<rparr>"
        "\<lparr>ball_id = 0, position = \<lparr>x = 97, y = 196\<rparr>, velocity = \<lparr>x = 300, y = 300\<rparr>, active = True\<rparr>"
        "\<lparr>left = 100, right = 140, top' = 200, bottom = 220\<rparr>"]
  show ?thesis by simp
qed

section \<open>C5: game over\<close>

text \<open>
  C5: \<open>checkGameOver\<close> is true exactly when some brick of the list has a row index of at
  least \<open>GRID_ROWS\<close>; on the empty list it is false.
\<close>

theorem C5_checkGameOver:
  "(checkGameOver bricks \<longleftrightarrow> (\<exists>brick \<in> set bricks. gridY brick \<ge> GRID_ROWS))
   \<and> checkGameOver [] = False"
  by (simp add: checkGameOver_def list_ex_iff)

theorem C5_checkGameOver_witness:
  "checkGameOver
     [\<lparr>brick_id = 0, gridX = 2, gridY = 3, hits = 1, destroying = False, destroyProgress = 0\<rparr>,
      \<lparr>brick_id = 1, gridX = 5, gridY = 11, hits = 4, destroying = False, destroyProgress = 0\<rparr>]
   \<and> \<not> checkGameOver
     [\<lparr>brick_id = 0, gridX = 2, gridY = 3, hits = 1, destroying = False, destroyProgress = 0\<rparr>,
      \<lparr>brick_id = 1, gridX = 5, gridY = 10, hits = 4, destroying = False, destroyProgress = 0\<rparr>]"
  using C5_checkGameOver
     [of "[\<lparr>brick_id = 0, gridX = 2, gridY = 3, hits = 1, destroying = False, destroyProgress = 0\<rparr>,
      \<lparr>brick_id = 1, gridX = 5, gridY = 11, hits = 4, destroying = False, destroyProgress = 0\<rparr>]"]
    C5_checkGameOver
     [of "[\<lparr>brick_id = 0, gridX = 2, gridY = 3, hits = 1, destroying = False, destroyProgress = 0\<rparr>,
      \<lparr>brick_id = 1, gridX = 5, gridY = 10, hits = 4, destroying = False, destroyProgress = 0\<rparr>]"]
  by (simp add: GRID_ROWS_def)

section \<open>C6: the brick invariant is preserved\<close>

lemma brickHits_positive: "1 \<le> brickHits level u"
  by (simp add: brickHits_def Let_def)

lemma createBricks_fresh:
  "b \<in> set (fst (createBricks gm level rnd k cols)) \<Longrightarrow> 1 \<le> hits b \<and> \<not> destroying b"
proof (induction cols arbitrary: gm k)
  case Nil
  then show ?case by simp
next
  case (Cons col cols)
  then show ?case
    using brickHits_positive [of level "rnd k"]
    by (auto simp add: Let_def createBrick_def split_beta)
qed

lemma brickCollisionStep_invariant:
  assumes "brickInvariant brick"
  shows "brickInvariant (snd (brickCollisionStep ph cw chh ox oy gap ball brick))"
  using assms
  by (auto simp add: brickCollisionStep_def brickInvariant_def Let_def split: prod.splits if_splits)

lemma brickCollisionStep_skips:
  "destroying brick \<Longrightarrow> brickCollisionStep ph cw chh ox oy gap ball brick = (ball, brick)"
  by (simp add: brickCollisionStep_def)

lemma brickCollisionStep_hits:
  "hits (snd (brickCollisionStep ph cw chh ox oy gap ball brick)) = hits brick
   \<or> (\<not> destroying brick
       \<and> hits (snd (brickCollisionStep ph cw chh ox oy gap ball brick)) = hits brick - 1)"
  by (auto simp add: brickCollisionStep_def Let_def split: prod.splits if_splits)

lemma brickCollisionLoop_length:
  "length (snd (brickCollisionLoop ph cw chh ox oy gap ball bricks)) = length bricks"
  by (induction bricks arbitrary: ball) (simp_all add: Let_def split_beta)

lemma brickCollisionLoop_invariant:
  "list_all brickInvariant bricks \<Longrightarrow>
   list_all brickInvariant (snd (brickCollisionLoop ph cw chh ox oy gap ball bricks))"
proof (induction bricks arbitrary: ball)
  case Nil
  then show ?case by simp
next
  case (Cons brick rest)
  obtain ball1 brick1 where step:
    "brickCollisionStep ph cw chh ox oy gap ball brick = (ball1, brick1)"
    by (cases "brickCollisionStep ph cw chh ox oy gap ball brick")
  have "brickInvariant brick1"
    using brickCollisionStep_invariant [of brick ph cw chh ox oy gap ball] Cons.prems step by simp
  moreover have "list_all brickInvariant (snd (brickCollisionLoop ph cw chh ox oy gap ball1 rest))"
    using Cons.IH Cons.prems by simp
  ultimately show ?case
    by (simp add: step Let_def split_beta)
qed

lemma brickCollisionLoop_destroying:
  "i < length bricks \<Longrightarrow> destroying (bricks ! i) \<Longrightarrow>
   snd (brickCollisionLoop ph cw chh ox oy gap ball bricks) ! i = bricks ! i"
proof (induction bricks arbitrary: ball i)
  case Nil
  then show ?case by simp
next
  case (Cons brick rest)
  obtain ball1 brick1 where step:
    "brickCollisionStep ph cw chh ox oy gap ball brick = (ball1, brick1)"
    by (cases "brickCollisionStep ph cw chh ox oy gap ball brick")
  show ?case
  proof (cases i)
    case 0
    with Cons.prems step show ?thesis
      by (simp add: brickCollisionStep_skips Let_def split_beta)
  next
    case (Suc j)
    with Cons.prems have "snd (brickCollisionLoop ph cw chh ox oy gap ball1 rest) ! j = rest ! j"
      by (intro Cons.IH) simp_all
    with Suc step show ?thesis
      by (simp add: Let_def split_beta)
  qed
qed

text \<open>
  C6: every brick satisfies the invariant (not destroying: at least one hit left;
  destroying: exactly zero hits; never a negative count). The bricks made by
  \<open>spawnNewRow\<close> have at least one hit and are not destroying; the loop over the bricks
  in \<open>updateAnimating\<close>, the spawn of a row, the move down, the progress of the destroy
  animation and the removal at the end of a turn all preserve the invariant; and the
  brick loop leaves every brick that is being destroyed exactly as it is.
\<close>

theorem C6_brick_invariant:
  "(\<forall>b \<in> set (fst (createBricks gm level rnd k cols)). 1 \<le> hits b \<and> \<not> destroying b \<and> brickInvariant b)
   \<and> (list_all brickInvariant bricks \<longrightarrow>
        list_all brickInvariant (snd (brickCollisionLoop ph cw chh ox oy gap ball bricks))
      \<and> list_all brickInvariant (bricks @ fst (createBricks gm level rnd k cols))
      \<and> list_all brickInvariant (moveBricksDown bricks)
      \<and> list_all brickInvariant (updateDestroyingBricks dt bricks)
      \<and> list_all brickInvariant (removeDestroyedBricks bricks)
      \<and> (\<forall>b \<in> set bricks. 0 \<le> hits b \<and> (destroying b \<longleftrightarrow> hits b = 0)
                             \<and> (\<not> destroying b \<longrightarrow> 1 \<le> hits b)))
   \<and> (\<forall>i < length bricks. destroying (bricks ! i) \<longrightarrow>
        snd (brickCollisionLoop ph cw chh ox oy gap ball bricks) ! i = bricks ! i)"
proof (intro conjI impI)
  show fresh: "\<forall>b \<in> set (fst (createBricks gm level rnd k cols)).
      1 \<le> hits b \<and> \<not> destroying b \<and> brickInvariant b"
    using createBricks_fresh [of _ gm level rnd k cols] by (auto simp add: brickInvariant_def)
  show "\<forall>i < length bricks. destroying (bricks ! i) \<longrightarrow>
        snd (brickCollisionLoop ph cw chh ox oy gap ball bricks) ! i = bricks ! i"
    by (simp add: brickCollisionLoop_destroying)
  assume inv: "list_all brickInvariant bricks"
  show "list_all brickInvariant (snd (brickCollisionLoop ph cw chh ox oy gap ball bricks))"
    using inv by (rule brickCollisionLoop_invariant)
  show "list_all brickInvariant (bricks @ fst (createBricks gm level rnd k cols))"
    using inv fresh by (auto simp add: list_all_iff)
  show "list_all brickInvariant (moveBricksDown bricks)"
    using inv by (auto simp add: moveBricksDown_def list_all_iff brickInvariant_def)
  show "list_all brickInvariant (updateDestroyingBricks dt bricks)"
    using inv by (auto simp add: updateDestroyingBricks_def list_all_iff brickInvariant_def)
  show "list_all brickInvariant (removeDestroyedBricks bricks)"
    using inv by (auto simp add: removeDestroyedBricks_def list_all_iff)
  show "\<forall>b \<in> set bricks. 0 \<le> hits b \<and> (destroying b \<longleftrightarrow> hits b = 0)
                             \<and> (\<not> destroying b \<longrightarrow> 1 \<le> hits b)"
    using inv by (auto simp add: list_all_iff brickInvariant_def split: if_splits)
qed


theorem C6_brick_invariant_witness:
  "list_all brickInvariant
      [\<lparr>brick_id = 0, gridX = 2, gridY = 3, hits = 1, destroying = False, destroyProgress = 0\<rparr>,
       \<lparr>brick_id = 1, gridX = 5, gridY = 3, hits = 0, destroying = True, destroyProgress = 1 / 2\<rparr>]
   \<and> snd (brickCollisionLoop
        \<lparr>gameWidth = 400, gameHeight = 600, ballRadius = 8, launchZoneTop = 540\<rparr> 42 22 15 133 2
        \<lparr>ball_id = 0, position = \<lparr>x = 95, y = 210\<rparr>, velocity = \<lparr>x = 300, y = 40\<rparr>, active = True\<rparr>
        [\<lparr>brick_id = 0, gridX = 2, gridY = 3, hits = 1, destroying = False, destroyProgress = 0\<rparr>,
         \<lparr>brick_id = 1, gridX = 5, gridY = 3, hits = 0, destroying = True, destroyProgress = 1 / 2\<rparr>])
      = [\<lparr>brick_id = 0, gridX = 2, gridY = 3, hits = 0, destroying = True, destroyProgress = 0\<rparr>,
         \<lparr>brick_id = 1, gridX = 5, gridY = 3, hits = 0, destroying = True, destroyProgress = 1 / 2\<rparr>]
   \<and> list_all brickInvariant
      [\<lparr>brick_id = 0, gridX = 2, gridY = 3, hits = 0, destroying = True, destroyProgress = 0\<rparr>,
       \<lparr>brick_id = 1, gridX = 5, gridY = 3, hits = 0, destroying = True, destroyProgress = 1 / 2\<rparr>]
   \<and> fst (createBricks \<lparr>nextBrickId = 2, nextPickupId = 0\<rparr> 7 (\<lambda>k. 1 / 2) 0 [3])
      = [\<lparr>brick_id = 2, gridX = 3, gridY = 0, hits = 7, destroying = False, destroyProgress = 0\<rparr>]"
proof -
  let ?ph = "\<lparr>gameWidth = 400, gameHeight = 600, ballRadius = 8, launchZoneTop = 540\<rparr>"
  let ?a = "\<lparr>ball_id = 0, position = \<lparr>x = 95, y = 210\<rparr>, velocity = \<lparr>x = 300, y = 40\<rparr>, active = True\<rparr>"
  let ?ks = "[\<lparr>brick_id = 0, gridX = 2, gridY = 3, hits = 1, destroying = False, destroyProgress = 0\<rparr>,
       \<lparr>brick_id = 1, gridX = 5, gridY = 3, hits = 0, destroying = True, destroyProgress = 1 / 2\<rparr>]"
  have before: "list_all brickInvariant ?ks"
    by (simp add: brickInvariant_def)
  have run: "snd (brickCollisionLoop ?ph 42 22 15 133 2 ?a ?ks)
      = [\<lparr>brick_id = 0, gridX = 2, gridY = 3, hits = 0, destroying = True, destroyProgress = 0\<rparr>,
         \<lparr>brick_id = 1, gridX = 5, gridY = 3, hits = 0, destroying = True, destroyProgress = 1 / 2\<rparr>]"
    by (simp add: brickCollisionStep_def getBrickBounds_def checkBrickCollision_def Let_def)
  have spawn: "fst (createBricks \<lparr>nextBrickId = 2, nextPickupId = 0\<rparr> 7 (\<lambda>k. 1 / 2) 0 [3])
      = [\<lparr>brick_id = 2, gridX = 3, gridY = 0, hits = 7, destroying = False, destroyProgress = 0\<rparr>]"
    by (simp add: createBrick_def brickHits_def BRICK_HIT_VARIANCE_def Let_def)
  from C6_brick_invariant
      [of "\<lparr>nextBrickId = 2, nextPickupId = 0\<rparr>" 7 "\<lambda>k. 1 / 2" 0 "[3]" ?ks
          ?ph 42 22 15 133 2 ?a 0]
    before run spawn
  show ?thesis by simp
qed

section \<open>C7: leaving an overlay\<close>

text \<open>
  C7 says that leaving an overlay always returns to the state from which it was entered,
  also when the settings are opened from the pause screen. The code keeps one remembered
  state. Pausing while aiming and resuming returns to aiming. Pausing while aiming,
  opening the settings from the pause screen and going back returns to the pause screen,
  but with the pause screen itself as the remembered state; the resume button then
  leaves the game paused instead of returning to aiming.
\<close>

theorem C7_nested_overlay_loses_state:
  "handleTaps \<lparr>r_width = 400, r_height = 600, scale = 1, launchZoneHeight = 60\<rparr>
      \<lparr>state = Aiming, previousState = Menu, speedMultiplier = 1, easyMode = False\<rparr>
      [\<lparr>x = - 1, y = - 1\<rparr>, \<lparr>x = 200, y = 280\<rparr>]
     = \<lparr>state = Aiming, previousState = Aiming, speedMultiplier = 1, easyMode = False\<rparr>
   \<and> handleTaps \<lparr>r_width = 400, r_height = 600, scale = 1, launchZoneHeight = 60\<rparr>
      \<lparr>state = Aiming, previousState = Menu, speedMultiplier = 1, easyMode = False\<rparr>
      [\<lparr>x = - 1, y = - 1\<rparr>, \<lparr>x = 200, y = 380\<rparr>]
     = \<lparr>state = Settings, previousState = Paused, speedMultiplier = 1, easyMode = False\<rparr>
   \<and> handleTaps \<lparr>r_width = 400, r_height = 600, scale = 1, launchZoneHeight = 60\<rparr>
      \<lparr>state = Aiming, previousState = Menu, speedMultiplier = 1, easyMode = False\<rparr>
      [\<lparr>x = - 1, y = - 1\<rparr>, \<lparr>x = 200, y = 380\<rparr>, \<lparr>x = 200, y = 380\<rparr>]
     = \<lparr>state = Paused, previousState = Paused, speedMultiplier = 1, easyMode = False\<rparr>
   \<and> handleTaps \<lparr>r_width = 400, r_height = 600, scale = 1, launchZoneHeight = 60\<rparr>
      \<lparr>state = Aiming, previousState = Menu, speedMultiplier = 1, easyMode = False\<rparr>
      [\<lparr>x = - 1, y = - 1\<rparr>, \<lparr>x = 200, y = 380\<rparr>, \<lparr>x = 200, y = 380\<rparr>, \<lparr>x = 200, y = 280\<rparr>]
     = \<lparr>state = Paused, previousState = Paused, speedMultiplier = 1, easyMode = False\<rparr>
   \<and> state (handleTaps \<lparr>r_width = 400, r_height = 600, scale = 1, launchZoneHeight = 60\<rparr>
      \<lparr>state = Aiming, previousState = Menu, speedMultiplier = 1, easyMode = False\<rparr>
      [\<lparr>x = - 1, y = - 1\<rparr>, \<lparr>x = 200, y = 380\<rparr>, \<lparr>x = 200, y = 380\<rparr>, \<lparr>x = 200, y = 280\<rparr>])
     \<noteq> Aiming"
  by (simp add: handleTap_def handleAimingTap_def handlePausedInput_def handleSettingsInput_def
      getPauseButtonBounds_def getSettingsButtonBounds_def isPointInBounds_def)

section \<open>C8: weighted choice of the pickup type\<close>

lemma weighted_pick_intervals:
  assumes "0 \<le> w1" and "0 \<le> w2" and "0 \<le> w3" and "0 \<le> w4" and "0 \<le> w5"
    and "0 < w1 + w2 + w3 + w4 + w5" and "0 \<le> u" and "u < 1"
  defines "totalWeight \<equiv> w1 + w2 + w3 + w4 + w5"
  defines "weights \<equiv> [(PBall, w1), (X2, w2), (X3, w3), (X5, w4), (X10, w5)]"
  shows "(getRandomPickupType weights u = PBall \<longleftrightarrow> u \<le> 0 + w1 / totalWeight)
       \<and> (getRandomPickupType weights u = X2 \<longleftrightarrow>
            w1 / totalWeight < u \<and> u \<le> w1 / totalWeight + w2 / totalWeight)
       \<and> (getRandomPickupType weights u = X3 \<longleftrightarrow>
            (w1 + w2) / totalWeight < u \<and> u \<le> (w1 + w2) / totalWeight + w3 / totalWeight)
       \<and> (getRandomPickupType weights u = X5 \<longleftrightarrow>
            (w1 + w2 + w3) / totalWeight < u \<and> u \<le> (w1 + w2 + w3) / totalWeight + w4 / totalWeight)
       \<and> (getRandomPickupType weights u = X10 \<longleftrightarrow>
            (w1 + w2 + w3 + w4) / totalWeight < u \<and> u < (w1 + w2 + w3 + w4) / totalWeight + w5 / totalWeight)"
proof -
  have t: "0 < totalWeight" using assms by simp
  have pick: "getRandomPickupType weights u =
      (if u * totalWeight \<le> w1 then PBall
       else if u * totalWeight \<le> w1 + w2 then X2
       else if u * totalWeight \<le> w1 + w2 + w3 then X3
       else if u * totalWeight \<le> w1 + w2 + w3 + w4 then X5
       else X10)"
  proof -
    have "u * totalWeight < totalWeight" using assms(8) t by simp
    then show ?thesis
      by (auto simp add: getRandomPickupType_def weights_def totalWeight_def Let_def)
  qed
  have div: "\<And>c. (c / totalWeight < u) = (c < u * totalWeight)" "\<And>c. (u \<le> c / totalWeight) = (u * totalWeight \<le> c)"
    using t by (simp_all add: field_simps)
  have last: "(w1 + w2 + w3 + w4 + w5) / totalWeight = 1"
    using t by (simp add: totalWeight_def)
  show ?thesis
    using assms(1-5,8)
    by (auto simp add: pick div add_divide_distrib [symmetric] last)
qed


text \<open>
  C8: with the value of \<open>Math.random()\<close> as the argument \<open>u\<close> in the interval from 0
  (included) to 1 (excluded) and non-negative weights with a positive sum,
  \<open>getRandomPickupType\<close> returns each type exactly on an interval of draws whose length
  is the weight of the type divided by the total weight. With the weights of the README,
  1.0, 0.2, 0.143, 0.1 and 0.05, the standard type is returned exactly for the draws up
  to 1000/1493, which lies between 0.66 and 0.68.
\<close>

theorem C8_weighted_pick:
  assumes "0 \<le> w1" and "0 \<le> w2" and "0 \<le> w3" and "0 \<le> w4" and "0 \<le> w5"
    and "0 < w1 + w2 + w3 + w4 + w5" and "0 \<le> u" and "u < 1"
  defines "totalWeight \<equiv> w1 + w2 + w3 + w4 + w5"
  defines "weights \<equiv> [(PBall, w1), (X2, w2), (X3, w3), (X5, w4), (X10, w5)]"
  shows "(getRandomPickupType weights u = PBall \<longleftrightarrow> u \<le> 0 + w1 / totalWeight)
       \<and> (getRandomPickupType weights u = X2 \<longleftrightarrow>
            w1 / totalWeight < u \<and> u \<le> w1 / totalWeight + w2 / totalWeight)
       \<and> (getRandomPickupType weights u = X3 \<longleftrightarrow>
            (w1 + w2) / totalWeight < u \<and> u \<le> (w1 + w2) / totalWeight + w3 / totalWeight)
       \<and> (getRandomPickupType weights u = X5 \<longleftrightarrow>
            (w1 + w2 + w3) / totalWeight < u
            \<and> u \<le> (w1 + w2 + w3) / totalWeight + w4 / totalWeight)
       \<and> (getRandomPickupType weights u = X10 \<longleftrightarrow>
            (w1 + w2 + w3 + w4) / totalWeight < u
            \<and> u < (w1 + w2 + w3 + w4) / totalWeight + w5 / totalWeight)
       \<and> (getRandomPickupType README_PICKUP_WEIGHTS u = PBall \<longleftrightarrow> u \<le> 1000 / 1493)
       \<and> (66 / 100 :: real) < 1000 / 1493 \<and> (1000 / 1493 :: real) < 68 / 100"
proof -
  have general: "(getRandomPickupType weights u = PBall \<longleftrightarrow> u \<le> 0 + w1 / totalWeight)
       \<and> (getRandomPickupType weights u = X2 \<longleftrightarrow>
            w1 / totalWeight < u \<and> u \<le> w1 / totalWeight + w2 / totalWeight)
       \<and> (getRandomPickupType weights u = X3 \<longleftrightarrow>
            (w1 + w2) / totalWeight < u \<and> u \<le> (w1 + w2) / totalWeight + w3 / totalWeight)
       \<and> (getRandomPickupType weights u = X5 \<longleftrightarrow>
            (w1 + w2 + w3) / totalWeight < u
            \<and> u \<le> (w1 + w2 + w3) / totalWeight + w4 / totalWeight)
       \<and> (getRandomPickupType weights u = X10 \<longleftrightarrow>
            (w1 + w2 + w3 + w4) / totalWeight < u
            \<and> u < (w1 + w2 + w3 + w4) / totalWeight + w5 / totalWeight)"
    unfolding weights_def totalWeight_def
    using assms(1-8) by (rule weighted_pick_intervals)
  have readme: "getRandomPickupType README_PICKUP_WEIGHTS u = PBall \<longleftrightarrow> u \<le> 1000 / 1493"
    using weighted_pick_intervals [of 1 "0.2" "0.143" "0.1" "0.05" u] assms(7,8)
    by (simp add: README_PICKUP_WEIGHTS_def)
  show ?thesis
    using general readme by simp
qed

theorem C8_weighted_pick_witness:
  "getRandomPickupType README_PICKUP_WEIGHTS (1 / 2) = PBall
   \<and> getRandomPickupType README_PICKUP_WEIGHTS (7 / 10) = X2
   \<and> getRandomPickupType README_PICKUP_WEIGHTS (85 / 100) = X3
   \<and> getRandomPickupType README_PICKUP_WEIGHTS (95 / 100) = X5
   \<and> getRandomPickupType README_PICKUP_WEIGHTS (99 / 100) = X10
   \<and> getRandomPickupType PICKUP_WEIGHTS (99 / 100) = PBall"
  using C8_weighted_pick [of 1 "0.2" "0.143" "0.1" "0.05" "1 / 2"]
    C8_weighted_pick [of 1 "0.2" "0.143" "0.1" "0.05" "7 / 10"]
    C8_weighted_pick [of 1 "0.2" "0.143" "0.1" "0.05" "85 / 100"]
    C8_weighted_pick [of 1 "0.2" "0.143" "0.1" "0.05" "95 / 100"]
    C8_weighted_pick [of 1 "0.2" "0.143" "0.1" "0.05" "99 / 100"]
    C8_weighted_pick [of 1 0 0 0 0 "99 / 100"]
  by (simp add: README_PICKUP_WEIGHTS_def PICKUP_WEIGHTS_def)


end
